theory Spec2Isabelle
  imports Complex_Main
begin

section \<open>Values, objects and the catalog\<close>

text \<open>
  The scalar values a request carries. The resolver annotates \<open>where\<close> as
  \<open>Record<string, Primitive>\<close> with \<open>Primitive = string | number | null\<close>; booleans are
  GraphQL scalars too. A GraphQL Int or Float is a finite number, so numbers are rational
  numbers and JavaScript's strict equality on them is equality of the number (there is no NaN,
  and the two zeros of a double are the same number). On these scalars \<open>a !== b\<close> is
  \<open>a \<noteq> b\<close>.
\<close>

datatype jsval = JNull | JBool bool | JNum rat | JStr string

text \<open>
  An argument object (\<open>where\<close>, the table's \<open>input\<close> object, \<open>ignore\<close>) is the list of
  its own properties in insertion order; its keys are distinct. GraphQL field names are never
  array indices, so \<open>Object.keys\<close> follows that order. \<open>key in x\<close>,
  \<open>hasOwnProperty(x, key)\<close> and \<open>x[key] !== undefined\<close> all say that \<open>key\<close> is one of
  the keys: no property holds \<open>undefined\<close>, and no field is named like a member of
  \<open>Object.prototype\<close>.
\<close>

type_synonym 'v object = "(string \<times> 'v) list"

definition hasOwnProperty :: "'v object \<Rightarrow> string \<Rightarrow> bool" where
  "hasOwnProperty x key = (key \<in> set (map fst x))"

definition Object_keys :: "'v object \<Rightarrow> string list" where
  "Object_keys x = map fst x"

text \<open>
  The objects keyed by constraint name are enumerated with \<open>Object.entries\<close>, and a
  constraint may have any name. JavaScript lists the properties whose key is an array index (a
  decimal numeral without a leading zero, below \<open>2^32 - 1\<close>) first, in ascending order of the
  index, and the other properties after them in insertion order.
\<close>

definition digit :: "char \<Rightarrow> nat option" where
  "digit c =
     map_of [(CHR ''0'', 0), (CHR ''1'', 1), (CHR ''2'', 2), (CHR ''3'', 3), (CHR ''4'', 4),
             (CHR ''5'', 5), (CHR ''6'', 6), (CHR ''7'', 7), (CHR ''8'', 8), (CHR ''9'', 9)] c"

fun decimal :: "nat \<Rightarrow> string \<Rightarrow> nat option" where
  "decimal n [] = Some n"
| "decimal n (c # cs) = (case digit c of None \<Rightarrow> None | Some d \<Rightarrow> decimal (10 * n + d) cs)"

definition arrayIndex :: "string \<Rightarrow> nat option" where
  "arrayIndex key =
     (case key of
        [] \<Rightarrow> None
      | c # cs \<Rightarrow>
          if c = CHR ''0'' \<and> cs \<noteq> [] then None
          else (case decimal 0 key of
                  None \<Rightarrow> None
                | Some n \<Rightarrow> if n < 4294967295 then Some n else None))"

definition Object_entries :: "'v object \<Rightarrow> 'v object" where
  "Object_entries x =
     sort_key (\<lambda>(key, v). case arrayIndex key of None \<Rightarrow> 0 | Some n \<Rightarrow> n)
       (filter (\<lambda>(key, v). arrayIndex key \<noteq> None) x)
     @ filter (\<lambda>(key, v). arrayIndex key = None) x"

text \<open>\<open>acc = {...acc, [key]: v}\<close>: an existing key keeps its place, a new key goes last.\<close>

fun spread_set :: "'v object \<Rightarrow> string \<Rightarrow> 'v \<Rightarrow> 'v object" where
  "spread_set [] key v = [(key, v)]"
| "spread_set ((k, w) # acc) key v =
     (if k = key then (k, v) # acc else (k, w) # spread_set acc key v)"

text \<open>\<open>Array.prototype.join\<close> on strings.\<close>

fun join :: "string list \<Rightarrow> string \<Rightarrow> string" where
  "join [] sep = []"
| "join [x] sep = x"
| "join (x # y # ys) sep = x @ sep @ join (y # ys) sep"

text \<open>
  The introspection records, with the fields the resolver reads. Field names carry the
  record's prefix because a table, an attribute and a constraint all have a \<open>name\<close>.
\<close>

record pgTable =
  tbl_id :: string
  tbl_name :: string
  tbl_namespace :: "string option"  \<comment> \<open>\<open>table.namespace.name\<close>, when the namespace is there\<close>

record pgAttribute =
  attr_classId :: string
  attr_num :: int
  attr_name :: string
  attr_type :: string               \<comment> \<open>opaque, handed to \<open>gql2pg\<close>\<close>
  attr_typeModifier :: "int option" \<comment> \<open>opaque, handed to \<open>gql2pg\<close>\<close>

record pgConstraint =
  con_classId :: string
  con_type :: string
  con_name :: string
  con_keyAttributeNums :: "int list"

section \<open>SQL fragments\<close>

text \<open>
  The resolver builds its statement with the tagged templates of the SQL library: a
  fragment is a sequence of nodes, raw text from the template, quoted identifiers and
  bound values. Raw text is kept up to blank space: each run of blanks and line breaks of a
  template is one space here.
\<close>

datatype sql_node = RAW string | IDENTIFIER (names: "string list") | VALUE jsval

type_synonym sql = "sql_node list"

text \<open>\<open>sql.join(items, sep)\<close>: the items' nodes, with the raw separator between items.\<close>

fun sql_join :: "sql list \<Rightarrow> string \<Rightarrow> sql" where
  "sql_join [] sep = []"
| "sql_join [x] sep = x"
| "sql_join (x # y # ys) sep = x @ RAW sep # sql_join (y # ys) sep"

section \<open>What the plugin takes from \<open>build\<close>\<close>

text \<open>
  The inflectors, \<open>pgOmit\<close> and \<open>gql2pg\<close> come from the schema builder; they are
  parameters of everything below.
\<close>

record build =
  gql2pg :: "jsval \<Rightarrow> string \<Rightarrow> int option \<Rightarrow> sql"
  camelCase :: "string \<Rightarrow> string"
  constantCase :: "string \<Rightarrow> string"
  columnName :: "pgAttribute \<Rightarrow> string"   \<comment> \<open>\<open>inflection._columnName\<close>\<close>
  column :: "pgAttribute \<Rightarrow> string"
  tableType :: "pgTable \<Rightarrow> string"
  omit :: "pgAttribute \<Rightarrow> string \<Rightarrow> bool"

datatype error =
    Error string                    \<comment> \<open>\<open>throw new Error(message)\<close>\<close>
  | NoAttributeFoundFor int         \<comment> \<open>\<open>assert(match, `no attribute found for ${num}`)\<close>\<close>
  | ExpectedTableNamespace          \<comment> \<open>\<open>assert(table.namespace, "expected table namespace")\<close>\<close>
  | TypeError                       \<comment> \<open>a property read on \<open>undefined\<close>\<close>

section \<open>The resolver with the ignore list (src/unnamed/part\_000)\<close>

definition upsertIgnoreColumnEnum :: "build \<Rightarrow> pgAttribute \<Rightarrow> string" where
  "upsertIgnoreColumnEnum b attr = constantCase b (columnName b attr)"

text \<open>
  \<open>allUniqueConstraints\<close> keeps the constraints of type u or p, \<open>uniqueConstraints\<close>
  those of the table; \<open>attributes\<close> is the table's attributes as the catalog lists them
  (inside \<open>resolve\<close> they are not sorted). postgraphile-upsert.ts has the same two lists; it
  filters the constraints by table first and by type second, which gives the same list.
\<close>

definition allUniqueConstraints :: "pgConstraint list \<Rightarrow> pgConstraint list" where
  "allUniqueConstraints constraints =
     filter (\<lambda>con. con_type con = ''u'' \<or> con_type con = ''p'') constraints"

definition uniqueConstraints :: "pgConstraint list \<Rightarrow> pgTable \<Rightarrow> pgConstraint list" where
  "uniqueConstraints constraints tbl =
     filter (\<lambda>con. con_classId con = tbl_id tbl) (allUniqueConstraints constraints)"

definition attributes :: "pgAttribute list \<Rightarrow> pgTable \<Rightarrow> pgAttribute list" where
  "attributes attribute tbl = filter (\<lambda>attr. attr_classId attr = tbl_id tbl) attribute"

text \<open>
  \<open>constraint.keyAttributeNums.map(num => ...)\<close> with its assertion: the first number
  without an attribute stops the request.
\<close>

fun keyAttributes :: "pgAttribute list \<Rightarrow> int list \<Rightarrow> error + pgAttribute list" where
  "keyAttributes attrs [] = Inr []"
| "keyAttributes attrs (num # nums) =
     (case find (\<lambda>attr. attr_num attr = num) attrs of
        None \<Rightarrow> Inl (NoAttributeFoundFor num)
      | Some match \<Rightarrow>
          (case keyAttributes attrs nums of
             Inl e \<Rightarrow> Inl e
           | Inr matches \<Rightarrow> Inr (match # matches)))"

text \<open>
  The \<open>reduce\<close> that builds \<open>columnsByConstraintName\<close>, an object keyed by constraint
  name. The columns of a constraint are a \<open>Set\<close> in the source; it is only ever iterated
  with \<open>every\<close>, so the list of its members stands for it.
\<close>

fun columnsByConstraintName_reduce ::
  "pgAttribute list \<Rightarrow> (pgAttribute list) object \<Rightarrow> pgConstraint list
     \<Rightarrow> error + (pgAttribute list) object" where
  "columnsByConstraintName_reduce attrs acc [] = Inr acc"
| "columnsByConstraintName_reduce attrs acc (con # cons) =
     (case keyAttributes attrs (con_keyAttributeNums con) of
        Inl e \<Rightarrow> Inl e
      | Inr cols \<Rightarrow>
          columnsByConstraintName_reduce attrs (spread_set acc (con_name con) cols) cons)"

definition columnsByConstraintName ::
  "pgAttribute list \<Rightarrow> pgConstraint list \<Rightarrow> error + (pgAttribute list) object" where
  "columnsByConstraintName attrs ucs = columnsByConstraintName_reduce attrs [] ucs"

definition primaryKeyConstraint :: "pgConstraint list \<Rightarrow> pgConstraint option" where
  "primaryKeyConstraint ucs = find (\<lambda>con. con_type con = ''p'') ucs"

text \<open>
  \<open>where ? find(every column in where) : find(every column in inputDataKeys) ?? find(primary
  key)\<close>; the conditional binds weaker than \<open>??\<close>, so the fallback belongs to the branch
  without \<open>where\<close>. A \<open>where\<close> that is \<open>undefined\<close> or \<open>null\<close> is \<open>None\<close>; every
  object, the empty one too, is truthy.
\<close>

definition matchingConstraint ::
  "build \<Rightarrow> (pgAttribute list) object \<Rightarrow> pgConstraint option \<Rightarrow> jsval object option
     \<Rightarrow> string list \<Rightarrow> (string \<times> pgAttribute list) option" where
  "matchingConstraint b cbn pk whr inputDataKeys =
     (case whr of
        Some w \<Rightarrow>
          find (\<lambda>(_, columns).
                  \<forall>col \<in> set columns. camelCase b (attr_name col) \<in> set (Object_keys w))
            (Object_entries cbn)
      | None \<Rightarrow>
          (case find (\<lambda>(_, columns).
                        \<forall>col \<in> set columns. camelCase b (attr_name col) \<in> set inputDataKeys)
                  (Object_entries cbn) of
             Some m \<Rightarrow> Some m
           | None \<Rightarrow> find (\<lambda>(key, _). Some key = map_option con_name pk) (Object_entries cbn)))"

definition constraintName ::
  "build \<Rightarrow> (pgAttribute list) object \<Rightarrow> pgConstraint option \<Rightarrow> jsval object option
     \<Rightarrow> string list \<Rightarrow> error + string" where
  "constraintName b cbn pk whr inputDataKeys =
     (case matchingConstraint b cbn pk whr inputDataKeys of
        None \<Rightarrow>
          Inl (Error (''Unable to determine upsert unique constraint for given upserted columns: ''
                      @ join inputDataKeys '', ''))
      | Some (key, _) \<Rightarrow> Inr key)"

text \<open>\<open>ignoreArg\<close>: the set of the \<open>ignore\<close> list's members, empty when there is no list.\<close>

definition ignoreArg :: "string list option \<Rightarrow> string set" where
  "ignoreArg ignore = set (case ignore of None \<Rightarrow> [] | Some ignored \<Rightarrow> ignored)"

text \<open>
  One round of \<open>attributes.forEach\<close>. The state is \<open>ignoreUpdate\<close>, \<open>sqlColumns\<close> and
  \<open>sqlValues\<close>. \<open>hasWhereClauseValue\<close> and \<open>whereClauseValue\<close> are one optional value.
\<close>

definition whereClause :: "build \<Rightarrow> jsval object option \<Rightarrow> pgAttribute \<Rightarrow> jsval option" where
  "whereClause b whr attr =
     (case whr of
        None \<Rightarrow> None
      | Some w \<Rightarrow> map_of w (camelCase b (attr_name attr)))"

fun sqlify_attr ::
  "build \<Rightarrow> jsval object option \<Rightarrow> string set \<Rightarrow> jsval object
     \<Rightarrow> string set \<times> sql_node list \<times> sql list \<Rightarrow> pgAttribute
     \<Rightarrow> error + string set \<times> sql_node list \<times> sql list" where
  "sqlify_attr b whr ignoreSet inputData (ignoreUpdate, sqlColumns, sqlValues) attr =
     (let ignoreUpdate' =
            (if omit b attr ''update'' \<or> omit b attr ''updateOnConflict''
                \<or> upsertIgnoreColumnEnum b attr \<in> ignoreSet
             then insert (attr_name attr) ignoreUpdate else ignoreUpdate);
          fieldName = column b attr
      in case map_of inputData fieldName of
           Some val \<Rightarrow>
             (case whereClause b whr attr of
                Some whereClauseValue \<Rightarrow>
                  if whereClauseValue \<noteq> val then
                    Inl (Error (''Value passed in the input for '' @ fieldName
                                @ '' does not match the where clause value.''))
                  else Inr (ignoreUpdate', sqlColumns @ [IDENTIFIER [attr_name attr]],
                            sqlValues @ [gql2pg b val (attr_type attr) (attr_typeModifier attr)])
              | None \<Rightarrow>
                  Inr (ignoreUpdate', sqlColumns @ [IDENTIFIER [attr_name attr]],
                       sqlValues @ [gql2pg b val (attr_type attr) (attr_typeModifier attr)]))
         | None \<Rightarrow>
             (case whereClause b whr attr of
                Some whereClauseValue \<Rightarrow>
                  Inr (ignoreUpdate', sqlColumns @ [IDENTIFIER [attr_name attr]],
                       sqlValues @ [gql2pg b whereClauseValue (attr_type attr)
                                      (attr_typeModifier attr)])
              | None \<Rightarrow> Inr (ignoreUpdate', sqlColumns, sqlValues)))"

fun sqlify ::
  "build \<Rightarrow> jsval object option \<Rightarrow> string set \<Rightarrow> jsval object
     \<Rightarrow> string set \<times> sql_node list \<times> sql list \<Rightarrow> pgAttribute list
     \<Rightarrow> error + string set \<times> sql_node list \<times> sql list" where
  "sqlify b whr ignoreSet inputData st [] = Inr st"
| "sqlify b whr ignoreSet inputData st (attr # attrs) =
     (case sqlify_attr b whr ignoreSet inputData st attr of
        Inl e \<Rightarrow> Inl e
      | Inr st' \<Rightarrow> sqlify b whr ignoreSet inputData st' attrs)"

text \<open>
  \<open>conflictUpdateArray\<close>: the columns whose name is not in \<open>ignoreUpdate\<close>, each as
  \<open>col = excluded.col\<close>. Every member of \<open>sqlColumns\<close> is \<open>sql.identifier(attr.name)\<close>,
  whose \<open>names\<close> has one element.
\<close>

definition conflictUpdateArray :: "string set \<Rightarrow> sql_node list \<Rightarrow> sql list" where
  "conflictUpdateArray ignoreUpdate sqlColumns =
     map (\<lambda>col. [IDENTIFIER [names col ! 0], RAW '' = excluded.'', IDENTIFIER [names col ! 0]])
       (filter (\<lambda>col. names col ! 0 \<notin> ignoreUpdate) sqlColumns)"

text \<open>
  \<open>mutationQuery\<close>: the template with its two fragments. The same template stands in both
  files; the table's namespace is read before it (part\_000 asserts it, postgraphile-upsert.ts
  reads its name inside the template).
\<close>

definition mutationQuery ::
  "string \<Rightarrow> string \<Rightarrow> sql_node list \<Rightarrow> sql list \<Rightarrow> string \<Rightarrow> sql list \<Rightarrow> sql" where
  "mutationQuery namespaceName tableName sqlColumns sqlValues conName conflictUpdates =
     [RAW '' insert into '', IDENTIFIER [namespaceName, tableName], RAW '' '']
     @ (if length sqlColumns \<noteq> 0 then
          [RAW ''(''] @ sql_join (map (\<lambda>col. [col]) sqlColumns) '', ''
          @ [RAW '') values (''] @ sql_join sqlValues '', ''
          @ [RAW '') on conflict on constraint '', IDENTIFIER [conName],
             RAW '' do update set ''] @ sql_join conflictUpdates '', ''
        else [RAW ''default values''])
     @ [RAW '' returning *'']"

text \<open>
  \<open>resolve\<close> up to the statement it hands to \<open>viaTemporaryTable\<close>: \<open>Inl\<close> is the
  exception thrown before any statement exists.
\<close>

definition resolve ::
  "build \<Rightarrow> pgConstraint list \<Rightarrow> pgAttribute list \<Rightarrow> pgTable
     \<Rightarrow> jsval object option \<Rightarrow> jsval object \<Rightarrow> string list option \<Rightarrow> error + sql" where
  "resolve b constraints attribute tbl whr inputData ignore =
     (let ucs = uniqueConstraints constraints tbl;
          attrs = attributes attribute tbl
      in case columnsByConstraintName attrs ucs of
           Inl e \<Rightarrow> Inl e
         | Inr cbn \<Rightarrow>
             (case constraintName b cbn (primaryKeyConstraint ucs) whr (Object_keys inputData) of
                Inl e \<Rightarrow> Inl e
              | Inr conName \<Rightarrow>
                  (case sqlify b whr (ignoreArg ignore) inputData ({}, [], []) attrs of
                     Inl e \<Rightarrow> Inl e
                   | Inr (ignoreUpdate, sqlColumns, sqlValues) \<Rightarrow>
                       (case tbl_namespace tbl of
                          None \<Rightarrow> Inl ExpectedTableNamespace
                        | Some namespaceName \<Rightarrow>
                            Inr (mutationQuery namespaceName (tbl_name tbl) sqlColumns
                                   sqlValues conName
                                   (conflictUpdateArray ignoreUpdate sqlColumns))))))"

section \<open>The resolver with the ignore object (src/src/postgraphile-upsert.ts)\<close>

text \<open>
  The older resolver. Its \<open>uniqueConstraints\<close>, \<open>attributes\<close>, \<open>primaryKeyConstraint\<close>,
  the reading of \<open>where\<close> in the loop and the statement template are those above. Here a key
  number without an attribute is not asserted: \<open>find\<close> gives \<open>undefined\<close> (\<open>None\<close>), which
  stays among the constraint's columns until \<open>col.name\<close> is read.
\<close>

definition constraintColumns ::
  "pgAttribute list \<Rightarrow> pgConstraint list \<Rightarrow> (pgAttribute option list) object" where
  "constraintColumns attrs ucs =
     foldl (\<lambda>acc con.
              spread_set acc (con_name con)
                (map (\<lambda>num. find (\<lambda>attr. attr_num attr = num) attrs) (con_keyAttributeNums con)))
       [] ucs"

text \<open>
  \<open>upsertedColumns\<close> is a \<open>Set\<close> made from \<open>attributes.filter(...)\<close>: its members are the
  attribute objects the callback answers truthy for, and the callback tests the enclosing
  \<open>fieldName\<close>, the mutation's name \<open>upsert<TableType>\<close>, and answers \<open>attr.name\<close>. What
  is later looked up in the set is a string.
\<close>

datatype set_member = AttributeObject pgAttribute | StringValue string

definition upsertedColumns ::
  "build \<Rightarrow> pgTable \<Rightarrow> pgAttribute list \<Rightarrow> jsval object \<Rightarrow> set_member list" where
  "upsertedColumns b tbl attrs inputData =
     map AttributeObject
       (filter (\<lambda>attr. hasOwnProperty inputData (''upsert'' @ tableType b tbl) \<and> attr_name attr \<noteq> [])
          attrs)"

fun toString :: "set_member \<Rightarrow> string" where
  "toString (AttributeObject attr) = ''[object Object]''"
| "toString (StringValue s) = s"

text \<open>\<open>[...columns].every(col => p(col))\<close> where reading \<open>col.name\<close> of \<open>undefined\<close> throws.\<close>

fun every_col :: "(pgAttribute \<Rightarrow> bool) \<Rightarrow> pgAttribute option list \<Rightarrow> error + bool" where
  "every_col p [] = Inr True"
| "every_col p (None # cols) = Inl TypeError"
| "every_col p (Some col # cols) = (if p col then every_col p cols else Inr False)"

text \<open>\<open>Object.entries(...).find(callback)\<close> with a callback that may throw.\<close>

fun find_entry :: "('e \<Rightarrow> error + bool) \<Rightarrow> 'e list \<Rightarrow> error + 'e option" where
  "find_entry p [] = Inr None"
| "find_entry p (entry # entries) =
     (case p entry of
        Inl e \<Rightarrow> Inl e
      | Inr found \<Rightarrow> if found then Inr (Some entry) else find_entry p entries)"

definition matchingConstraint_src ::
  "build \<Rightarrow> (pgAttribute option list) object \<Rightarrow> pgConstraint option \<Rightarrow> set_member list
     \<Rightarrow> jsval object option \<Rightarrow> error + (string \<times> pgAttribute option list) option" where
  "matchingConstraint_src b cc pk upserted whr =
     (case whr of
        Some w \<Rightarrow>
          find_entry (\<lambda>(_, columns).
                        every_col (\<lambda>col. map_of w (camelCase b (attr_name col)) \<noteq> None) columns)
            (Object_entries cc)
      | None \<Rightarrow>
          (case find_entry (\<lambda>(_, columns).
                              every_col (\<lambda>col. StringValue (attr_name col) \<in> set upserted) columns)
                  (Object_entries cc) of
             Inl e \<Rightarrow> Inl e
           | Inr (Some m) \<Rightarrow> Inr (Some m)
           | Inr None \<Rightarrow>
               find_entry (\<lambda>(key, _). case pk of
                                         None \<Rightarrow> Inl TypeError
                                       | Some p \<Rightarrow> Inr (key = con_name p)) (Object_entries cc)))"

definition constraintName_src ::
  "build \<Rightarrow> (pgAttribute option list) object \<Rightarrow> pgConstraint option \<Rightarrow> set_member list
     \<Rightarrow> jsval object option \<Rightarrow> error + string" where
  "constraintName_src b cc pk upserted whr =
     (case matchingConstraint_src b cc pk upserted whr of
        Inl e \<Rightarrow> Inl e
      | Inr None \<Rightarrow>
          Inl (Error (''Unable to determine upsert unique constraint for given upserted columns: ''
                      @ join (map toString upserted) '', ''))
      | Inr (Some (key, _)) \<Rightarrow> Inr key)"

text \<open>
  One round of \<open>attributes.forEach\<close>. \<open>ignore\<close> is an object of nullable booleans
  (\<open>None\<close> is \<open>null\<close>); \<open>ignoreUpdate\<close> is an object keyed by column name that holds
  what \<open>omit\<close> answered or what the caller passed.
\<close>

fun sqlify_attr_src ::
  "build \<Rightarrow> jsval object option \<Rightarrow> (bool option) object option \<Rightarrow> jsval object
     \<Rightarrow> (string \<rightharpoonup> bool option) \<times> sql_node list \<times> sql list \<Rightarrow> pgAttribute
     \<Rightarrow> error + (string \<rightharpoonup> bool option) \<times> sql_node list \<times> sql list" where
  "sqlify_attr_src b whr ignore inputData (ignoreUpdate, sqlColumns, sqlValues) attr =
     (let ignoreUpdate1 = ignoreUpdate(attr_name attr \<mapsto> Some (omit b attr ''updateOnConflict''));
          ignoreUpdate' =
            (case ignore of
               None \<Rightarrow> ignoreUpdate1
             | Some ig \<Rightarrow>
                 (case map_of ig (camelCase b (attr_name attr)) of
                    None \<Rightarrow> ignoreUpdate1
                  | Some flag \<Rightarrow> ignoreUpdate1(attr_name attr \<mapsto> flag)));
          fieldName = column b attr
      in case map_of inputData fieldName of
           Some val \<Rightarrow>
             (case whereClause b whr attr of
                Some whereClauseValue \<Rightarrow>
                  if whereClauseValue \<noteq> val then
                    Inl (Error (''Value passed in the input for '' @ fieldName
                                @ '' does not match the where clause value.''))
                  else Inr (ignoreUpdate', sqlColumns @ [IDENTIFIER [attr_name attr]],
                            sqlValues @ [gql2pg b val (attr_type attr) (attr_typeModifier attr)])
              | None \<Rightarrow>
                  Inr (ignoreUpdate', sqlColumns @ [IDENTIFIER [attr_name attr]],
                       sqlValues @ [gql2pg b val (attr_type attr) (attr_typeModifier attr)]))
         | None \<Rightarrow>
             (case whereClause b whr attr of
                Some whereClauseValue \<Rightarrow>
                  Inr (ignoreUpdate', sqlColumns @ [IDENTIFIER [attr_name attr]],
                       sqlValues @ [gql2pg b whereClauseValue (attr_type attr)
                                      (attr_typeModifier attr)])
              | None \<Rightarrow> Inr (ignoreUpdate', sqlColumns, sqlValues)))"

fun sqlify_src ::
  "build \<Rightarrow> jsval object option \<Rightarrow> (bool option) object option \<Rightarrow> jsval object
     \<Rightarrow> (string \<rightharpoonup> bool option) \<times> sql_node list \<times> sql list \<Rightarrow> pgAttribute list
     \<Rightarrow> error + (string \<rightharpoonup> bool option) \<times> sql_node list \<times> sql list" where
  "sqlify_src b whr ignore inputData st [] = Inr st"
| "sqlify_src b whr ignore inputData st (attr # attrs) =
     (case sqlify_attr_src b whr ignore inputData st attr of
        Inl e \<Rightarrow> Inl e
      | Inr st' \<Rightarrow> sqlify_src b whr ignore inputData st' attrs)"

text \<open>\<open>ignoreUpdate[col.names[0]] != true\<close>: a missing entry, \<open>null\<close> and \<open>false\<close> pass.\<close>

definition conflictUpdateArray_src :: "(string \<rightharpoonup> bool option) \<Rightarrow> sql_node list \<Rightarrow> sql list" where
  "conflictUpdateArray_src ignoreUpdate sqlColumns =
     map (\<lambda>col. [IDENTIFIER [names col ! 0], RAW '' = excluded.'', IDENTIFIER [names col ! 0]])
       (filter (\<lambda>col. ignoreUpdate (names col ! 0) \<noteq> Some (Some True)) sqlColumns)"

definition resolve_src ::
  "build \<Rightarrow> pgConstraint list \<Rightarrow> pgAttribute list \<Rightarrow> pgTable
     \<Rightarrow> jsval object option \<Rightarrow> jsval object \<Rightarrow> (bool option) object option \<Rightarrow> error + sql" where
  "resolve_src b constraints attribute tbl whr inputData ignore =
     (let ucs = uniqueConstraints constraints tbl;
          attrs = attributes attribute tbl;
          cc = constraintColumns attrs ucs;
          upserted = upsertedColumns b tbl attrs inputData
      in case constraintName_src b cc (primaryKeyConstraint ucs) upserted whr of
           Inl e \<Rightarrow> Inl e
         | Inr conName \<Rightarrow>
             (case sqlify_src b whr ignore inputData (Map.empty, [], []) attrs of
                Inl e \<Rightarrow> Inl e
              | Inr (ignoreUpdate, sqlColumns, sqlValues) \<Rightarrow>
                  (case tbl_namespace tbl of
                     None \<Rightarrow> Inl TypeError
                   | Some namespaceName \<Rightarrow>
                       Inr (mutationQuery namespaceName (tbl_name tbl) sqlColumns sqlValues
                              conName (conflictUpdateArray_src ignoreUpdate sqlColumns)))))"

section \<open>The specification's vocabulary\<close>

text \<open>
  The notions the specification states its properties in, written over the data above. They are
  not part of either resolver; the lemmas of the next section show that the loops and the scans
  compute them.
\<close>

text \<open>The diagnostic of a value mismatch, for a field name.\<close>

definition valueMismatchMessage :: "string \<Rightarrow> string" where
  "valueMismatchMessage fieldName =
     ''Value passed in the input for '' @ fieldName @ '' does not match the where clause value.''"

text \<open>
  An attribute mismatches when its key is in the input and in \<open>where\<close> and the two values
  differ.
\<close>

definition valueMismatch ::
  "build \<Rightarrow> jsval object option \<Rightarrow> jsval object \<Rightarrow> pgAttribute \<Rightarrow> bool" where
  "valueMismatch b whr inputData attr =
     (case map_of inputData (column b attr) of
        None \<Rightarrow> False
      | Some val \<Rightarrow>
          (case whereClause b whr attr of
             None \<Rightarrow> False
           | Some whereValue \<Rightarrow> whereValue \<noteq> val))"

text \<open>
  An attribute is in the insert list when its key is in the input or in \<open>where\<close>; its value
  is the input's, else the one of \<open>where\<close>.
\<close>

definition inInsertList ::
  "build \<Rightarrow> jsval object option \<Rightarrow> jsval object \<Rightarrow> pgAttribute \<Rightarrow> bool" where
  "inInsertList b whr inputData attr =
     (map_of inputData (column b attr) \<noteq> None \<or> whereClause b whr attr \<noteq> None)"

definition insertValue ::
  "build \<Rightarrow> jsval object option \<Rightarrow> jsval object \<Rightarrow> pgAttribute \<Rightarrow> jsval" where
  "insertValue b whr inputData attr =
     (case map_of inputData (column b attr) of
        Some val \<Rightarrow> val
      | None \<Rightarrow>
          (case whereClause b whr attr of
             Some whereValue \<Rightarrow> whereValue
           | None \<Rightarrow> JNull))"

definition insertColumns ::
  "build \<Rightarrow> jsval object option \<Rightarrow> jsval object \<Rightarrow> pgAttribute list \<Rightarrow> sql_node list" where
  "insertColumns b whr inputData attrs =
     map (\<lambda>attr. IDENTIFIER [attr_name attr]) (filter (inInsertList b whr inputData) attrs)"

definition insertValues ::
  "build \<Rightarrow> jsval object option \<Rightarrow> jsval object \<Rightarrow> pgAttribute list \<Rightarrow> sql list" where
  "insertValues b whr inputData attrs =
     map (\<lambda>attr. gql2pg b (insertValue b whr inputData attr) (attr_type attr)
                   (attr_typeModifier attr))
       (filter (inInsertList b whr inputData) attrs)"

text \<open>
  The specification's \<open>updateExcluded\<close>: the schema omits the update, or omits it on conflict,
  or the caller's ignore set has the column.
\<close>

definition updateExcluded :: "build \<Rightarrow> string set \<Rightarrow> pgAttribute \<Rightarrow> bool" where
  "updateExcluded b ignoreSet attr =
     (omit b attr ''update'' \<or> omit b attr ''updateOnConflict''
      \<or> upsertIgnoreColumnEnum b attr \<in> ignoreSet)"

text \<open>
  What postgraphile-upsert.ts records for a column: the caller's entry when the ignore object
  has one, else what the schema says about the update on conflict; and the \<open>ignoreUpdate\<close>
  object after the loop has visited a list of attributes.
\<close>

definition ignoreFlag_src ::
  "build \<Rightarrow> (bool option) object option \<Rightarrow> pgAttribute \<Rightarrow> bool option" where
  "ignoreFlag_src b ignore attr =
     (case ignore of
        None \<Rightarrow> Some (omit b attr ''updateOnConflict'')
      | Some ig \<Rightarrow>
          (case map_of ig (camelCase b (attr_name attr)) of
             None \<Rightarrow> Some (omit b attr ''updateOnConflict'')
           | Some flag \<Rightarrow> flag))"

fun ignoreUpdate_src ::
  "build \<Rightarrow> (bool option) object option \<Rightarrow> (string \<rightharpoonup> bool option) \<Rightarrow> pgAttribute list
     \<Rightarrow> (string \<rightharpoonup> bool option)" where
  "ignoreUpdate_src b ig m [] = m"
| "ignoreUpdate_src b ig m (attr # attrs) =
     ignoreUpdate_src b ig (m(attr_name attr \<mapsto> ignoreFlag_src b ig attr)) attrs"

text \<open>
  The catalog invariant of the specification: every key number of a constraint is the number of
  an attribute of the relation. The member columns of a constraint are the attributes its key
  numbers name, and a list of keys covers a constraint when it has the field name of every member
  column.
\<close>

definition catalogConsistent :: "pgAttribute list \<Rightarrow> pgConstraint list \<Rightarrow> bool" where
  "catalogConsistent attrs ucs =
     (\<forall>con \<in> set ucs. \<forall>num \<in> set (con_keyAttributeNums con).
        find (\<lambda>attr. attr_num attr = num) attrs \<noteq> None)"

definition memberColumns :: "pgAttribute list \<Rightarrow> pgConstraint \<Rightarrow> pgAttribute list" where
  "memberColumns attrs con =
     List.map_filter (\<lambda>num. find (\<lambda>attr. attr_num attr = num) attrs) (con_keyAttributeNums con)"

definition covers :: "build \<Rightarrow> string list \<Rightarrow> pgAttribute list \<Rightarrow> pgConstraint \<Rightarrow> bool" where
  "covers b keys attrs con =
     (\<forall>col \<in> set (memberColumns attrs con). camelCase b (attr_name col) \<in> set keys)"

text \<open>The error of a request for which no constraint is found, for the columns it lists.\<close>

definition noMatchingConstraint :: "string list \<Rightarrow> error" where
  "noMatchingConstraint columns =
     Error (''Unable to determine upsert unique constraint for given upserted columns: ''
            @ join columns '', '')"

text \<open>One entry of the conflict-update list: \<open>col = excluded.col\<close>.\<close>

definition assignment :: "string \<Rightarrow> sql" where
  "assignment col = [IDENTIFIER [col], RAW '' = excluded.'', IDENTIFIER [col]]"


section \<open>A catalog to run the resolvers on\<close>

text \<open>
  The two tables of the repository's tests: \<open>bikes\<close> with its primary key and the unique
  constraint on \<open>(serial_number, weight)\<close>, and \<open>roles\<close> with its primary key, the
  unique constraint on \<open>(project_name, title)\<close> and \<open>rank\<close> marked
  \<open>@omit updateOnConflict\<close>. \<open>camelCase\<close> is given on the names that occur.
\<close>

definition example_camelCase :: "string \<Rightarrow> string" where
  "example_camelCase s =
     (if s = ''serial_number'' then ''serialNumber''
      else if s = ''project_name'' then ''projectName'' else s)"

text \<open>
  \<open>constantCase\<close> on a column name in snake case puts every letter in upper case.
\<close>

definition upperCase :: "char \<Rightarrow> char" where
  "upperCase c =
     (case map_of (zip ''abcdefghijklmnopqrstuvwxyz'' ''ABCDEFGHIJKLMNOPQRSTUVWXYZ'') c of
        None \<Rightarrow> c
      | Some u \<Rightarrow> u)"

definition example_constantCase :: "string \<Rightarrow> string" where
  "example_constantCase s = map upperCase s"

definition example_build :: build where
  "example_build =
     \<lparr>gql2pg = (\<lambda>val ty tm. [VALUE val]),
      camelCase = example_camelCase,
      constantCase = example_constantCase,
      columnName = attr_name,
      column = (\<lambda>attr. example_camelCase (attr_name attr)),
      tableType = (\<lambda>tbl. if tbl_name tbl = ''bikes'' then ''Bike'' else ''Role''),
      omit = (\<lambda>attr capability. attr_name attr = ''rank'' \<and> capability = ''updateOnConflict'')\<rparr>"

definition bikes :: pgTable where
  "bikes = \<lparr>tbl_id = ''16385'', tbl_name = ''bikes'', tbl_namespace = Some ''public''\<rparr>"

definition roles :: pgTable where
  "roles = \<lparr>tbl_id = ''16397'', tbl_name = ''roles'', tbl_namespace = Some ''public''\<rparr>"

definition example_attribute :: "pgAttribute list" where
  "example_attribute =
     [\<lparr>attr_classId = ''16385'', attr_num = 1, attr_name = ''id'', attr_type = ''int4'', attr_typeModifier = None\<rparr>,
      \<lparr>attr_classId = ''16385'', attr_num = 2, attr_name = ''weight'', attr_type = ''float4'', attr_typeModifier = None\<rparr>,
      \<lparr>attr_classId = ''16385'', attr_num = 3, attr_name = ''make'', attr_type = ''varchar'', attr_typeModifier = None\<rparr>,
      \<lparr>attr_classId = ''16385'', attr_num = 4, attr_name = ''model'', attr_type = ''varchar'', attr_typeModifier = None\<rparr>,
      \<lparr>attr_classId = ''16385'', attr_num = 5, attr_name = ''serial_number'', attr_type = ''varchar'', attr_typeModifier = None\<rparr>,
      \<lparr>attr_classId = ''16397'', attr_num = 1, attr_name = ''id'', attr_type = ''int4'', attr_typeModifier = None\<rparr>,
      \<lparr>attr_classId = ''16397'', attr_num = 2, attr_name = ''project_name'', attr_type = ''varchar'', attr_typeModifier = None\<rparr>,
      \<lparr>attr_classId = ''16397'', attr_num = 3, attr_name = ''title'', attr_type = ''varchar'', attr_typeModifier = None\<rparr>,
      \<lparr>attr_classId = ''16397'', attr_num = 4, attr_name = ''name'', attr_type = ''varchar'', attr_typeModifier = None\<rparr>,
      \<lparr>attr_classId = ''16397'', attr_num = 5, attr_name = ''rank'', attr_type = ''int4'', attr_typeModifier = None\<rparr>]"

definition example_constraint :: "pgConstraint list" where
  "example_constraint =
     [\<lparr>con_classId = ''16385'', con_type = ''p'', con_name = ''bikes_pkey'', con_keyAttributeNums = [1]\<rparr>,
      \<lparr>con_classId = ''16385'', con_type = ''u'', con_name = ''serial_weight_unique'', con_keyAttributeNums = [5, 2]\<rparr>,
      \<lparr>con_classId = ''16397'', con_type = ''p'', con_name = ''roles_pkey'', con_keyAttributeNums = [1]\<rparr>,
      \<lparr>con_classId = ''16397'', con_type = ''u'', con_name = ''roles_project_name_title_key'', con_keyAttributeNums = [2, 3]\<rparr>]"

text \<open>
  The same catalog after \<open>alter table bikes add constraint "1" unique (make)\<close>: the new
  constraint is the last one the catalog lists for the table.
\<close>

definition example_constraint_numeral :: "pgConstraint list" where
  "example_constraint_numeral =
     example_constraint
     @ [\<lparr>con_classId = ''16385'', con_type = ''u'', con_name = ''1'', con_keyAttributeNums = [3]\<rparr>]"

text \<open>
  The schema builder with \<open>name\<close> marked \<open>@omit update\<close> as well.
\<close>

definition example_build_omit_update :: build where
  "example_build_omit_update =
     example_build
       \<lparr>omit := (\<lambda>attr capability.
                   attr_name attr = ''rank'' \<and> capability = ''updateOnConflict''
                   \<or> attr_name attr = ''name'' \<and> capability = ''update'')\<rparr>"

section \<open>What the loop and the scans compute\<close>

lemmas example_defs = example_camelCase_def example_constantCase_def upperCase_def
  example_build_def example_build_omit_update_def bikes_def
  roles_def example_attribute_def example_constraint_def example_constraint_numeral_def

lemmas resolve_defs = resolve_def uniqueConstraints_def allUniqueConstraints_def attributes_def
  columnsByConstraintName_def primaryKeyConstraint_def constraintName_def matchingConstraint_def
  Object_keys_def ignoreArg_def whereClause_def conflictUpdateArray_def mutationQuery_def
  upsertIgnoreColumnEnum_def Let_def Object_entries_def arrayIndex_def digit_def

lemmas resolve_src_defs = resolve_src_def uniqueConstraints_def allUniqueConstraints_def
  attributes_def constraintColumns_def primaryKeyConstraint_def constraintName_src_def
  matchingConstraint_src_def upsertedColumns_def hasOwnProperty_def whereClause_def
  conflictUpdateArray_src_def mutationQuery_def Let_def Object_entries_def arrayIndex_def
  digit_def

lemma sqlify_attr_eq:
  "sqlify_attr b whr ia inp (ign, cols, vals) a =
     (if valueMismatch b whr inp a then Inl (Error (valueMismatchMessage (column b a)))
      else Inr (if updateExcluded b ia a then insert (attr_name a) ign else ign,
                cols @ insertColumns b whr inp [a], vals @ insertValues b whr inp [a]))"
  by (simp add: valueMismatch_def valueMismatchMessage_def updateExcluded_def insertColumns_def
      insertValues_def inInsertList_def insertValue_def Let_def split: option.splits)

lemma sqlify_eq:
  "sqlify b whr ia inp (ign, cols, vals) attrs =
     (case find (valueMismatch b whr inp) attrs of
        Some a \<Rightarrow> Inl (Error (valueMismatchMessage (column b a)))
      | None \<Rightarrow>
          Inr (ign \<union> attr_name ` {a \<in> set attrs. updateExcluded b ia a},
               cols @ insertColumns b whr inp attrs, vals @ insertValues b whr inp attrs))"
proof (induction attrs arbitrary: ign cols vals)
  case Nil
  show ?case by (simp add: insertColumns_def insertValues_def)
next
  case (Cons a attrs)
  show ?case
  proof (cases "valueMismatch b whr inp a")
    case True
    then show ?thesis by (simp add: sqlify_attr_eq del: sqlify_attr.simps)
  next
    case False
    have s: "attr_name ` {x. (x = a \<or> x \<in> set attrs) \<and> updateExcluded b ia x}
           = (if updateExcluded b ia a then {attr_name a} else {}) \<union> attr_name ` {x \<in> set attrs. updateExcluded b ia x}"
      by auto
    from False show ?thesis
      by (simp add: sqlify_attr_eq Cons.IH insertColumns_def insertValues_def s
          del: sqlify_attr.simps split: option.splits)
  qed
qed

lemma sqlify_attr_src_eq:
  "sqlify_attr_src b whr ig inp (ign, cols, vals) a =
     (if valueMismatch b whr inp a then Inl (Error (valueMismatchMessage (column b a)))
      else Inr (ign(attr_name a \<mapsto> ignoreFlag_src b ig a),
                cols @ insertColumns b whr inp [a], vals @ insertValues b whr inp [a]))"
  by (simp add: valueMismatch_def valueMismatchMessage_def ignoreFlag_src_def insertColumns_def
      insertValues_def inInsertList_def insertValue_def Let_def split: option.splits)

lemma sqlify_src_eq:
  "sqlify_src b whr ig inp (ign, cols, vals) attrs =
     (case find (valueMismatch b whr inp) attrs of
        Some a \<Rightarrow> Inl (Error (valueMismatchMessage (column b a)))
      | None \<Rightarrow>
          Inr (ignoreUpdate_src b ig ign attrs,
               cols @ insertColumns b whr inp attrs, vals @ insertValues b whr inp attrs))"
proof (induction attrs arbitrary: ign cols vals)
  case Nil
  show ?case by (simp add: insertColumns_def insertValues_def)
next
  case (Cons a attrs)
  show ?case
  proof (cases "valueMismatch b whr inp a")
    case True
    then show ?thesis by (simp add: sqlify_attr_src_eq del: sqlify_attr_src.simps)
  next
    case False
    then show ?thesis
      by (simp add: sqlify_attr_src_eq Cons.IH insertColumns_def insertValues_def
          del: sqlify_attr_src.simps split: option.splits)
  qed
qed

lemma ignoreUpdate_src_other:
  "n \<notin> attr_name ` set attrs \<Longrightarrow> ignoreUpdate_src b ig m attrs n = m n"
  by (induction attrs arbitrary: m) auto

lemma ignoreUpdate_src_distinct:
  "distinct (map attr_name attrs) \<Longrightarrow> a \<in> set attrs \<Longrightarrow>
   ignoreUpdate_src b ig m attrs (attr_name a) = Some (ignoreFlag_src b ig a)"
proof (induction attrs arbitrary: m)
  case Nil
  then show ?case by simp
next
  case (Cons x attrs)
  show ?case
  proof (cases "a = x")
    case True
    with Cons.prems show ?thesis by (simp add: ignoreUpdate_src_other)
  next
    case False
    with Cons show ?thesis by simp
  qed
qed

lemma sqlify_start:
  "sqlify b whr ia inp ({}, [], []) attrs =
     (case find (valueMismatch b whr inp) attrs of
        Some a \<Rightarrow> Inl (Error (valueMismatchMessage (column b a)))
      | None \<Rightarrow>
          Inr (attr_name ` {a \<in> set attrs. updateExcluded b ia a},
               insertColumns b whr inp attrs, insertValues b whr inp attrs))"
  by (simp add: sqlify_eq split: option.splits)

lemma sqlify_src_start:
  "sqlify_src b whr ig inp (Map.empty, [], []) attrs =
     (case find (valueMismatch b whr inp) attrs of
        Some a \<Rightarrow> Inl (Error (valueMismatchMessage (column b a)))
      | None \<Rightarrow>
          Inr (ignoreUpdate_src b ig Map.empty attrs,
               insertColumns b whr inp attrs, insertValues b whr inp attrs))"
  by (simp add: sqlify_src_eq split: option.splits)

lemma resolve_Inr:
  assumes "resolve b constraints attribute tbl whr inputData ignore = Inr q"
  shows "\<exists>cbn conName namespaceName.
           columnsByConstraintName (attributes attribute tbl) (uniqueConstraints constraints tbl) = Inr cbn
         \<and> constraintName b cbn (primaryKeyConstraint (uniqueConstraints constraints tbl)) whr
              (Object_keys inputData) = Inr conName
         \<and> find (valueMismatch b whr inputData) (attributes attribute tbl) = None
         \<and> tbl_namespace tbl = Some namespaceName
         \<and> q = mutationQuery namespaceName (tbl_name tbl)
                 (insertColumns b whr inputData (attributes attribute tbl))
                 (insertValues b whr inputData (attributes attribute tbl)) conName
                 (conflictUpdateArray
                    (attr_name ` {a \<in> set (attributes attribute tbl). updateExcluded b (ignoreArg ignore) a})
                    (insertColumns b whr inputData (attributes attribute tbl)))"
  using assms
  by (auto simp: resolve_def Let_def sqlify_start ignoreArg_def split: sum.splits option.splits)

lemma resolve_src_Inr:
  assumes "resolve_src b constraints attribute tbl whr inputData ignore = Inr q"
  shows "\<exists>conName namespaceName.
           constraintName_src b (constraintColumns (attributes attribute tbl) (uniqueConstraints constraints tbl))
              (primaryKeyConstraint (uniqueConstraints constraints tbl))
              (upsertedColumns b tbl (attributes attribute tbl) inputData) whr = Inr conName
         \<and> find (valueMismatch b whr inputData) (attributes attribute tbl) = None
         \<and> tbl_namespace tbl = Some namespaceName
         \<and> q = mutationQuery namespaceName (tbl_name tbl)
                 (insertColumns b whr inputData (attributes attribute tbl))
                 (insertValues b whr inputData (attributes attribute tbl)) conName
                 (conflictUpdateArray_src
                    (ignoreUpdate_src b ignore Map.empty (attributes attribute tbl))
                    (insertColumns b whr inputData (attributes attribute tbl)))"
  using assms
  by (auto simp: resolve_src_def Let_def sqlify_src_start split: sum.splits option.splits)

lemma last_mutationQuery:
  "last (mutationQuery ns t cols vals c cua) = RAW '' returning *''"
  by (simp add: mutationQuery_def)

lemma mutationQuery_default:
  "mutationQuery ns t [] vals c cua =
     [RAW '' insert into '', IDENTIFIER [ns, t], RAW '' '', RAW ''default values'', RAW '' returning *'']"
  by (simp add: mutationQuery_def)

lemma keyAttributes_resolved:
  "\<forall>num \<in> set nums. find (\<lambda>attr. attr_num attr = num) attrs \<noteq> None \<Longrightarrow>
   keyAttributes attrs nums = Inr (List.map_filter (\<lambda>num. find (\<lambda>attr. attr_num attr = num) attrs) nums)"
  by (induction nums) (auto split: option.splits)

lemma spread_set_new:
  "key \<notin> fst ` set acc \<Longrightarrow> spread_set acc key v = acc @ [(key, v)]"
  by (induction acc key v rule: spread_set.induct) auto

lemma columnsByConstraintName_reduce_distinct:
  "catalogConsistent attrs cons \<Longrightarrow> distinct (map con_name cons) \<Longrightarrow>
   con_name ` set cons \<inter> fst ` set acc = {} \<Longrightarrow>
   columnsByConstraintName_reduce attrs acc cons =
     Inr (acc @ map (\<lambda>con. (con_name con, memberColumns attrs con)) cons)"
proof (induction cons arbitrary: acc)
  case Nil
  then show ?case by simp
next
  case (Cons con cons)
  have k: "keyAttributes attrs (con_keyAttributeNums con) = Inr (memberColumns attrs con)"
    using Cons.prems(1) by (simp add: catalogConsistent_def memberColumns_def keyAttributes_resolved)
  have n: "con_name con \<notin> fst ` set acc"
    using Cons.prems(3) by auto
  have c: "catalogConsistent attrs cons"
    using Cons.prems(1) by (simp add: catalogConsistent_def)
  have d: "con_name ` set cons \<inter> fst ` set (acc @ [(con_name con, memberColumns attrs con)]) = {}"
    using Cons.prems(2,3) by auto
  show ?case
    using Cons.prems(2) by (simp add: k spread_set_new [OF n] Cons.IH [OF c _ d])
qed

lemma columnsByConstraintName_distinct:
  "catalogConsistent attrs ucs \<Longrightarrow> distinct (map con_name ucs) \<Longrightarrow>
   columnsByConstraintName attrs ucs = Inr (map (\<lambda>con. (con_name con, memberColumns attrs con)) ucs)"
  by (simp add: columnsByConstraintName_def columnsByConstraintName_reduce_distinct)

lemma find_entries:
  "find (\<lambda>(key, columns). P key columns) (map (\<lambda>con. (con_name con, m con)) cons) =
     map_option (\<lambda>con. (con_name con, m con)) (find (\<lambda>con. P (con_name con) (m con)) cons)"
  by (induction cons) auto

lemma find_primary_entry:
  "find (\<lambda>con. con_type con = ''p'') cons = Some pk \<Longrightarrow>
   \<exists>con. find (\<lambda>con. con_name con = con_name pk) cons = Some con \<and> con_name con = con_name pk"
  by (induction cons) (auto split: if_splits)

lemma Object_entries_plain:
  "\<forall>entry \<in> set x. arrayIndex (fst entry) = None \<Longrightarrow> Object_entries x = x"
  by (simp add: Object_entries_def case_prod_beta filter_empty_conv filter_id_conv)

lemma set_Object_entries: "set (Object_entries x) = set x"
  by (auto simp: Object_entries_def)

lemma Object_entries_names:
  "\<forall>con \<in> set ucs. arrayIndex (con_name con) = None \<Longrightarrow>
   Object_entries (map (\<lambda>con. (con_name con, m con)) ucs) = map (\<lambda>con. (con_name con, m con)) ucs"
  by (rule Object_entries_plain) auto

lemma constraintName_no_where:
  assumes "catalogConsistent attrs ucs" and "distinct (map con_name ucs)"
    and "\<forall>con \<in> set ucs. arrayIndex (con_name con) = None"
  shows "\<exists>cbn. columnsByConstraintName attrs ucs = Inr cbn \<and>
         constraintName b cbn (primaryKeyConstraint ucs) None keys =
           (case find (covers b keys attrs) ucs of
              Some con \<Rightarrow> Inr (con_name con)
            | None \<Rightarrow>
                (case primaryKeyConstraint ucs of
                   Some pk \<Rightarrow> Inr (con_name pk)
                 | None \<Rightarrow> Inl (noMatchingConstraint keys)))"
proof -
  let ?cbn = "map (\<lambda>con. (con_name con, memberColumns attrs con)) ucs"
  have cbn: "columnsByConstraintName attrs ucs = Inr ?cbn"
    using assms(1,2) by (rule columnsByConstraintName_distinct)
  have ent: "Object_entries ?cbn = ?cbn"
    using assms(3) by (rule Object_entries_names)
  have scan: "find (\<lambda>(_, columns). \<forall>col \<in> set columns. camelCase b (attr_name col) \<in> set keys) ?cbn
              = map_option (\<lambda>con. (con_name con, memberColumns attrs con)) (find (covers b keys attrs) ucs)"
    by (simp add: find_entries covers_def [abs_def])
  have "constraintName b ?cbn (primaryKeyConstraint ucs) None keys =
           (case find (covers b keys attrs) ucs of
              Some con \<Rightarrow> Inr (con_name con)
            | None \<Rightarrow>
                (case primaryKeyConstraint ucs of
                   Some pk \<Rightarrow> Inr (con_name pk)
                 | None \<Rightarrow> Inl (noMatchingConstraint keys)))"
  proof (cases "find (covers b keys attrs) ucs")
    case (Some con)
    then show ?thesis
      by (simp add: constraintName_def matchingConstraint_def ent scan)
  next
    case None
    show ?thesis
    proof (cases "primaryKeyConstraint ucs")
      case nopk: None
      have "find (\<lambda>(key, _). Some key = None) ?cbn = None"
        by (simp add: find_entries find_None_iff)
      with None nopk show ?thesis
        by (simp add: constraintName_def matchingConstraint_def ent scan noMatchingConstraint_def)
    next
      case (Some pk)
      then obtain con where "find (\<lambda>con. con_name con = con_name pk) ucs = Some con"
          and "con_name con = con_name pk"
        using find_primary_entry [of ucs pk] by (auto simp: primaryKeyConstraint_def)
      then have "find (\<lambda>(key, _). Some key = Some (con_name pk)) ?cbn
                 = Some (con_name pk, memberColumns attrs con)"
        by (simp add: find_entries)
      with None Some show ?thesis
        by (simp add: constraintName_def matchingConstraint_def ent scan)
    qed
  qed
  with cbn show ?thesis by blast
qed

lemma constraintName_where:
  assumes "catalogConsistent attrs ucs" and "distinct (map con_name ucs)"
    and "\<forall>con \<in> set ucs. arrayIndex (con_name con) = None"
  shows "\<exists>cbn. columnsByConstraintName attrs ucs = Inr cbn \<and>
         constraintName b cbn pk (Some w) keys =
           (case find (covers b (Object_keys w) attrs) ucs of
              Some con \<Rightarrow> Inr (con_name con)
            | None \<Rightarrow> Inl (noMatchingConstraint keys))"
proof -
  let ?cbn = "map (\<lambda>con. (con_name con, memberColumns attrs con)) ucs"
  have cbn: "columnsByConstraintName attrs ucs = Inr ?cbn"
    using assms(1,2) by (rule columnsByConstraintName_distinct)
  have ent: "Object_entries ?cbn = ?cbn"
    using assms(3) by (rule Object_entries_names)
  have scan: "find (\<lambda>(_, columns). \<forall>col \<in> set columns. camelCase b (attr_name col) \<in> set (Object_keys w)) ?cbn
              = map_option (\<lambda>con. (con_name con, memberColumns attrs con)) (find (covers b (Object_keys w) attrs) ucs)"
    by (simp add: find_entries covers_def [abs_def])
  have "constraintName b ?cbn pk (Some w) keys =
           (case find (covers b (Object_keys w) attrs) ucs of
              Some con \<Rightarrow> Inr (con_name con)
            | None \<Rightarrow> Inl (noMatchingConstraint keys))"
    by (simp add: constraintName_def matchingConstraint_def ent scan noMatchingConstraint_def
        split: option.splits)
  with cbn show ?thesis by blast
qed

lemma constraintColumns_foldl_distinct:
  "distinct (map con_name cons) \<Longrightarrow> con_name ` set cons \<inter> fst ` set acc = {} \<Longrightarrow>
   foldl (\<lambda>acc con. spread_set acc (con_name con) (f con)) acc cons =
     acc @ map (\<lambda>con. (con_name con, f con)) cons"
proof (induction cons arbitrary: acc)
  case Nil
  then show ?case by simp
next
  case (Cons con cons)
  have n: "con_name con \<notin> fst ` set acc"
    using Cons.prems(2) by auto
  have d: "con_name ` set cons \<inter> fst ` set (acc @ [(con_name con, f con)]) = {}"
    using Cons.prems by auto
  show ?case
    using Cons.prems(1) by (simp add: spread_set_new [OF n] Cons.IH [OF _ d])
qed

lemma constraintColumns_distinct:
  "distinct (map con_name ucs) \<Longrightarrow>
   constraintColumns attrs ucs =
     map (\<lambda>con. (con_name con,
                 map (\<lambda>num. find (\<lambda>attr. attr_num attr = num) attrs) (con_keyAttributeNums con))) ucs"
  unfolding constraintColumns_def
  by (subst constraintColumns_foldl_distinct) simp_all

lemma map_filter_id_map:
  "List.map_filter id (map f xs) = List.map_filter f xs"
  by (induction xs) (auto split: option.splits)

lemma every_col_resolved:
  "\<forall>num \<in> set nums. f num \<noteq> None \<Longrightarrow>
   every_col p (map f nums) = Inr (\<forall>col \<in> set (List.map_filter f nums). p col)"
  by (induction nums) (auto split: option.splits)

lemma find_entry_pure:
  "\<forall>entry \<in> set entries. p entry = Inr (P entry) \<Longrightarrow> find_entry p entries = Inr (find P entries)"
  by (induction entries) auto

lemma constraintName_src_where:
  assumes "catalogConsistent attrs ucs" and "distinct (map con_name ucs)"
    and "\<forall>con \<in> set ucs. arrayIndex (con_name con) = None"
  shows "constraintName_src b (constraintColumns attrs ucs) pk upserted (Some w) =
           (case find (covers b (Object_keys w) attrs) ucs of
              Some con \<Rightarrow> Inr (con_name con)
            | None \<Rightarrow> Inl (noMatchingConstraint (map toString upserted)))"
proof -
  let ?f = "\<lambda>num. find (\<lambda>attr. attr_num attr = num) attrs"
  let ?cc = "map (\<lambda>con. (con_name con, map ?f (con_keyAttributeNums con))) ucs"
  let ?p = "\<lambda>(_, columns). every_col (\<lambda>col. map_of w (camelCase b (attr_name col)) \<noteq> None) columns"
  have cc: "constraintColumns attrs ucs = ?cc"
    using assms(2) by (rule constraintColumns_distinct)
  have ent: "Object_entries ?cc = ?cc"
    using assms(3) by (rule Object_entries_names)
  have pure: "\<forall>entry \<in> set ?cc. ?p entry =
                Inr ((\<lambda>(_, columns). \<forall>col \<in> set (List.map_filter id columns).
                        camelCase b (attr_name col) \<in> set (Object_keys w)) entry)"
  proof
    fix entry assume "entry \<in> set ?cc"
    then obtain con where con: "con \<in> set ucs"
        and e: "entry = (con_name con, map ?f (con_keyAttributeNums con))"
      by auto
    have r: "\<forall>num \<in> set (con_keyAttributeNums con). ?f num \<noteq> None"
      using assms(1) con by (simp add: catalogConsistent_def)
    have m: "List.map_filter id (map ?f (con_keyAttributeNums con)) = List.map_filter ?f (con_keyAttributeNums con)"
      by (rule map_filter_id_map)
    show "?p entry = Inr ((\<lambda>(_, columns). \<forall>col \<in> set (List.map_filter id columns).
                        camelCase b (attr_name col) \<in> set (Object_keys w)) entry)"
      by (simp add: e every_col_resolved [OF r] m Object_keys_def map_of_eq_None_iff)
  qed
  have scan: "find_entry ?p ?cc =
      Inr (map_option (\<lambda>con. (con_name con, map ?f (con_keyAttributeNums con)))
             (find (covers b (Object_keys w) attrs) ucs))"
    by (subst find_entry_pure [OF pure])
       (simp add: find_entries covers_def [abs_def] memberColumns_def map_filter_id_map)
  show ?thesis
    unfolding cc constraintName_src_def matchingConstraint_src_def option.case ent scan
    by (simp add: noMatchingConstraint_def split: option.splits)
qed

lemma resolve_Inr_sqlify:
  assumes "resolve b constraints attribute tbl whr inputData ignore = Inr q"
  shows "\<exists>conName namespaceName ignoreUpdate sqlColumns sqlValues.
           sqlify b whr (ignoreArg ignore) inputData ({}, [], []) (attributes attribute tbl)
             = Inr (ignoreUpdate, sqlColumns, sqlValues)
         \<and> tbl_namespace tbl = Some namespaceName
         \<and> q = mutationQuery namespaceName (tbl_name tbl) sqlColumns sqlValues conName
                 (conflictUpdateArray ignoreUpdate sqlColumns)"
  using assms
  by (auto simp: resolve_def Let_def split: sum.splits option.splits)

lemma resolve_src_Inr_sqlify:
  assumes "resolve_src b constraints attribute tbl whr inputData ignore = Inr q"
  shows "\<exists>conName namespaceName ignoreUpdate sqlColumns sqlValues.
           sqlify_src b whr ignore inputData (Map.empty, [], []) (attributes attribute tbl)
             = Inr (ignoreUpdate, sqlColumns, sqlValues)
         \<and> tbl_namespace tbl = Some namespaceName
         \<and> q = mutationQuery namespaceName (tbl_name tbl) sqlColumns sqlValues conName
                 (conflictUpdateArray_src ignoreUpdate sqlColumns)"
  using assms
  by (auto simp: resolve_src_def Let_def split: sum.splits option.splits)

section \<open>The statement builder\<close>

text \<open>
  C8. When the reconciled insert list is empty the statement is
  \<open>insert into <relation> default values returning *\<close>: no column list, no values, no
  conflict clause. Every statement the builder makes ends with \<open>returning *\<close>. Both hold for
  the builder alone and for every statement either resolver hands on.
\<close>

theorem default_values_and_returning:
  "mutationQuery namespaceName tableName [] sqlValues conName conflictUpdates =
     [RAW '' insert into '', IDENTIFIER [namespaceName, tableName], RAW '' '',
      RAW ''default values'', RAW '' returning *'']
   \<and> last (mutationQuery namespaceName tableName sqlColumns sqlValues conName conflictUpdates)
       = RAW '' returning *''
   \<and> (resolve b constraints attribute tbl whr inputData ignore = Inr q \<longrightarrow>
        last q = RAW '' returning *''
        \<and> (\<forall>ignoreUpdate vals.
              sqlify b whr (ignoreArg ignore) inputData ({}, [], []) (attributes attribute tbl)
                = Inr (ignoreUpdate, [], vals) \<longrightarrow>
              (\<exists>ns. tbl_namespace tbl = Some ns
                 \<and> q = [RAW '' insert into '', IDENTIFIER [ns, tbl_name tbl], RAW '' '',
                         RAW ''default values'', RAW '' returning *''])))
   \<and> (resolve_src b constraints attribute tbl whr inputData ignore_src = Inr q' \<longrightarrow>
        last q' = RAW '' returning *''
        \<and> (\<forall>ignoreUpdate vals.
              sqlify_src b whr ignore_src inputData (Map.empty, [], []) (attributes attribute tbl)
                = Inr (ignoreUpdate, [], vals) \<longrightarrow>
              (\<exists>ns. tbl_namespace tbl = Some ns
                 \<and> q' = [RAW '' insert into '', IDENTIFIER [ns, tbl_name tbl], RAW '' '',
                          RAW ''default values'', RAW '' returning *''])))"
proof (intro conjI impI allI)
  show "mutationQuery namespaceName tableName [] sqlValues conName conflictUpdates =
     [RAW '' insert into '', IDENTIFIER [namespaceName, tableName], RAW '' '',
      RAW ''default values'', RAW '' returning *'']"
    by (rule mutationQuery_default)
  show "last (mutationQuery namespaceName tableName sqlColumns sqlValues conName conflictUpdates)
       = RAW '' returning *''"
    by (rule last_mutationQuery)
next
  assume "resolve b constraints attribute tbl whr inputData ignore = Inr q"
  then show "last q = RAW '' returning *''"
    by (auto dest!: resolve_Inr_sqlify simp: last_mutationQuery)
next
  fix ignoreUpdate vals
  assume "resolve b constraints attribute tbl whr inputData ignore = Inr q"
    and "sqlify b whr (ignoreArg ignore) inputData ({}, [], []) (attributes attribute tbl)
                = Inr (ignoreUpdate, [], vals)"
  then show "\<exists>ns. tbl_namespace tbl = Some ns
                 \<and> q = [RAW '' insert into '', IDENTIFIER [ns, tbl_name tbl], RAW '' '',
                         RAW ''default values'', RAW '' returning *'']"
    by (auto dest!: resolve_Inr_sqlify simp: mutationQuery_default)
next
  assume "resolve_src b constraints attribute tbl whr inputData ignore_src = Inr q'"
  then show "last q' = RAW '' returning *''"
    by (auto dest!: resolve_src_Inr_sqlify simp: last_mutationQuery)
next
  fix ignoreUpdate vals
  assume "resolve_src b constraints attribute tbl whr inputData ignore_src = Inr q'"
    and "sqlify_src b whr ignore_src inputData (Map.empty, [], []) (attributes attribute tbl)
                = Inr (ignoreUpdate, [], vals)"
  then show "\<exists>ns. tbl_namespace tbl = Some ns
                 \<and> q' = [RAW '' insert into '', IDENTIFIER [ns, tbl_name tbl], RAW '' '',
                          RAW ''default values'', RAW '' returning *'']"
    by (auto dest!: resolve_src_Inr_sqlify simp: mutationQuery_default)
qed

theorem default_values_and_returning_witness:
  "resolve example_build example_constraint example_attribute bikes None [] None
     = Inr [RAW '' insert into '', IDENTIFIER [''public'', ''bikes''], RAW '' '',
            RAW ''default values'', RAW '' returning *'']
   \<and> sqlify example_build None (ignoreArg None) [] ({}, [], []) (attributes example_attribute bikes)
       = Inr ({}, [], [])
   \<and> last [RAW '' insert into '', IDENTIFIER [''public'', ''bikes''], RAW '' '',
            RAW ''default values'', RAW '' returning *''] = RAW '' returning *''
   \<and> tbl_namespace bikes = Some ''public''"
proof -
  have h1: "resolve example_build example_constraint example_attribute bikes None [] None
     = Inr [RAW '' insert into '', IDENTIFIER [''public'', ''bikes''], RAW '' '',
            RAW ''default values'', RAW '' returning *'']"
    by (simp add: example_defs resolve_defs)
  have h2: "sqlify example_build None (ignoreArg None) [] ({}, [], []) (attributes example_attribute bikes)
       = Inr ({}, [], [])"
    by (simp add: example_defs resolve_defs)
  from default_values_and_returning [where b = example_build and constraints = example_constraint
      and attribute = example_attribute and tbl = bikes and whr = None and inputData = "[]"
      and ignore = None
      and q = "[RAW '' insert into '', IDENTIFIER [''public'', ''bikes''], RAW '' '',
            RAW ''default values'', RAW '' returning *'']"] h1 h2
  show ?thesis by (simp add: bikes_def)
qed

lemma mutationQuery_columns:
  "sqlColumns \<noteq> [] \<Longrightarrow>
   mutationQuery namespaceName tableName sqlColumns sqlValues conName conflictUpdates =
     [RAW '' insert into '', IDENTIFIER [namespaceName, tableName], RAW '' '', RAW ''('']
     @ sql_join (map (\<lambda>col. [col]) sqlColumns) '', ''
     @ [RAW '') values (''] @ sql_join sqlValues '', ''
     @ [RAW '') on conflict on constraint '', IDENTIFIER [conName], RAW '' do update set '']
     @ sql_join conflictUpdates '', '' @ [RAW '' returning *'']"
  by (simp add: mutationQuery_def)

text \<open>
  C1. A request whose insert list is not empty and whose inserted columns are all excluded from
  the conflict update should get \<open>on conflict on constraint <constraint> do nothing\<close>. Neither
  resolver does that: the template guards the empty insert list only, and writes
  \<open>do update set\<close> before the joined assignments however many there are. For the roles table
  with only \<open>rank\<close> supplied, which the schema omits from the update on conflict, the insert
  list is \<open>rank\<close>, the assignment list is empty, and both resolvers hand on
  \<open>... do update set  returning *\<close>, which is not a statement PostgreSQL accepts.
\<close>

theorem do_update_set_without_assignments:
  "sqlify example_build None (ignoreArg None) [(''rank'', JNum 1)] ({}, [], [])
       (attributes example_attribute roles)
     = Inr ({''rank''}, [IDENTIFIER [''rank'']], [[VALUE (JNum 1)]])
   \<and> conflictUpdateArray {''rank''} [IDENTIFIER [''rank'']] = []
   \<and> resolve example_build example_constraint example_attribute roles None
         [(''rank'', JNum 1)] None
       = Inr [RAW '' insert into '', IDENTIFIER [''public'', ''roles''], RAW '' '',
              RAW ''('', IDENTIFIER [''rank''], RAW '') values ('', VALUE (JNum 1),
              RAW '') on conflict on constraint '', IDENTIFIER [''roles_pkey''],
              RAW '' do update set '', RAW '' returning *'']
   \<and> resolve_src example_build example_constraint example_attribute roles None
         [(''rank'', JNum 1)] None
       = Inr [RAW '' insert into '', IDENTIFIER [''public'', ''roles''], RAW '' '',
              RAW ''('', IDENTIFIER [''rank''], RAW '') values ('', VALUE (JNum 1),
              RAW '') on conflict on constraint '', IDENTIFIER [''roles_pkey''],
              RAW '' do update set '', RAW '' returning *'']"
proof (intro conjI)
  show "sqlify example_build None (ignoreArg None) [(''rank'', JNum 1)] ({}, [], [])
       (attributes example_attribute roles)
     = Inr ({''rank''}, [IDENTIFIER [''rank'']], [[VALUE (JNum 1)]])"
    by (simp add: example_defs resolve_defs)
  show "conflictUpdateArray {''rank''} [IDENTIFIER [''rank'']] = []"
    by (simp add: conflictUpdateArray_def)
  show "resolve example_build example_constraint example_attribute roles None
         [(''rank'', JNum 1)] None
       = Inr [RAW '' insert into '', IDENTIFIER [''public'', ''roles''], RAW '' '',
              RAW ''('', IDENTIFIER [''rank''], RAW '') values ('', VALUE (JNum 1),
              RAW '') on conflict on constraint '', IDENTIFIER [''roles_pkey''],
              RAW '' do update set '', RAW '' returning *'']"
    by (simp add: example_defs resolve_defs)
  show "resolve_src example_build example_constraint example_attribute roles None
         [(''rank'', JNum 1)] None
       = Inr [RAW '' insert into '', IDENTIFIER [''public'', ''roles''], RAW '' '',
              RAW ''('', IDENTIFIER [''rank''], RAW '') values ('', VALUE (JNum 1),
              RAW '') on conflict on constraint '', IDENTIFIER [''roles_pkey''],
              RAW '' do update set '', RAW '' returning *'']"
    by (simp add: example_defs resolve_src_defs)
qed

text \<open>What that request gets is not the \<open>do nothing\<close> statement.\<close>

theorem do_update_set_without_assignments_witness:
  "resolve example_build example_constraint example_attribute roles None
       [(''rank'', JNum 1)] None
     \<noteq> Inr [RAW '' insert into '', IDENTIFIER [''public'', ''roles''], RAW '' '',
            RAW ''('', IDENTIFIER [''rank''], RAW '') values ('', VALUE (JNum 1),
            RAW '') on conflict on constraint '', IDENTIFIER [''roles_pkey''],
            RAW '' do nothing'', RAW '' returning *'']
   \<and> resolve_src example_build example_constraint example_attribute roles None
       [(''rank'', JNum 1)] None
     \<noteq> Inr [RAW '' insert into '', IDENTIFIER [''public'', ''roles''], RAW '' '',
            RAW ''('', IDENTIFIER [''rank''], RAW '') values ('', VALUE (JNum 1),
            RAW '') on conflict on constraint '', IDENTIFIER [''roles_pkey''],
            RAW '' do nothing'', RAW '' returning *'']"
  using do_update_set_without_assignments by simp

lemma excluded_names_distinct:
  assumes "distinct (map attr_name attrs)" and "attr \<in> set attrs"
  shows "attr_name attr \<in> attr_name ` {a \<in> set attrs. P a} \<longleftrightarrow> P attr"
proof -
  have "inj_on attr_name (set attrs)"
    using assms(1) by (simp add: distinct_map)
  with assms(2) show ?thesis
    by (auto dest: inj_onD)
qed

lemma conflictUpdateArray_insertColumns:
  assumes "distinct (map attr_name attrs)"
  shows "conflictUpdateArray (attr_name ` {a \<in> set attrs. P a}) (insertColumns b whr inp attrs) =
           map (\<lambda>a. assignment (attr_name a))
             (filter (\<lambda>a. inInsertList b whr inp a \<and> \<not> P a) attrs)"
proof -
  have "filter (\<lambda>a. attr_name a \<notin> attr_name ` {a \<in> set attrs. P a}) (filter (inInsertList b whr inp) attrs)
        = filter (\<lambda>a. inInsertList b whr inp a \<and> \<not> P a) attrs"
    unfolding filter_filter
    by (rule filter_cong [OF refl]) (auto simp: excluded_names_distinct [OF assms])
  then show ?thesis
    by (simp add: conflictUpdateArray_def insertColumns_def filter_map comp_def assignment_def)
qed

lemma conflictUpdateArray_src_insertColumns:
  assumes "distinct (map attr_name attrs)"
  shows "conflictUpdateArray_src (ignoreUpdate_src b ig Map.empty attrs) (insertColumns b whr inp attrs) =
           map (\<lambda>a. assignment (attr_name a))
             (filter (\<lambda>a. inInsertList b whr inp a \<and> ignoreFlag_src b ig a \<noteq> Some True) attrs)"
proof -
  have "filter (\<lambda>a. ignoreUpdate_src b ig Map.empty attrs (attr_name a) \<noteq> Some (Some True))
          (filter (inInsertList b whr inp) attrs)
        = filter (\<lambda>a. inInsertList b whr inp a \<and> ignoreFlag_src b ig a \<noteq> Some True) attrs"
    unfolding filter_filter
    by (rule filter_cong [OF refl]) (auto simp: ignoreUpdate_src_distinct [OF assms])
  then show ?thesis
    by (simp add: conflictUpdateArray_src_def insertColumns_def filter_map comp_def assignment_def)
qed

section \<open>The flag that excludes a column from the conflict update\<close>

text \<open>
  What each loop records, for a relation with distinct column names. In part\_000 a column's
  name is in \<open>ignoreUpdate\<close> exactly when \<open>omit(attr, "update")\<close> or
  \<open>omit(attr, "updateOnConflict")\<close> holds or the column's enum name is in the caller's ignore
  list. In postgraphile-upsert.ts the recorded flag is the caller's entry for the column when
  there is one and \<open>omit(attr, "updateOnConflict")\<close> otherwise. In both, the insert columns
  and values do not depend on the flag, and the conflict-update list is the inserted columns
  whose flag is not set, in insert order.
\<close>

lemma update_exclusion_flags:
  assumes "distinct (map attr_name attrs)" and "attr \<in> set attrs"
  shows
  "(sqlify b whr ignoreSet inputData ({}, [], []) attrs = Inr (ignoreUpdate, sqlColumns, sqlValues) \<longrightarrow>
      (attr_name attr \<in> ignoreUpdate \<longleftrightarrow>
         omit b attr ''update'' \<or> omit b attr ''updateOnConflict''
         \<or> upsertIgnoreColumnEnum b attr \<in> ignoreSet)
      \<and> sqlColumns = insertColumns b whr inputData attrs
      \<and> sqlValues = insertValues b whr inputData attrs
      \<and> conflictUpdateArray ignoreUpdate sqlColumns =
          map (\<lambda>a. assignment (attr_name a))
            (filter (\<lambda>a. inInsertList b whr inputData a \<and>
                          \<not> (omit b a ''update'' \<or> omit b a ''updateOnConflict''
                             \<or> upsertIgnoreColumnEnum b a \<in> ignoreSet)) attrs))
   \<and> (sqlify_src b whr ignore inputData (Map.empty, [], []) attrs
        = Inr (ignoreUpdate', sqlColumns', sqlValues') \<longrightarrow>
      ignoreUpdate' (attr_name attr) =
         Some (case ignore of
                 None \<Rightarrow> Some (omit b attr ''updateOnConflict'')
               | Some ig \<Rightarrow>
                   (case map_of ig (camelCase b (attr_name attr)) of
                      None \<Rightarrow> Some (omit b attr ''updateOnConflict'')
                    | Some flag \<Rightarrow> flag))
      \<and> sqlColumns' = insertColumns b whr inputData attrs
      \<and> sqlValues' = insertValues b whr inputData attrs
      \<and> conflictUpdateArray_src ignoreUpdate' sqlColumns' =
          map (\<lambda>a. assignment (attr_name a))
            (filter (\<lambda>a. inInsertList b whr inputData a \<and> ignoreFlag_src b ignore a \<noteq> Some True)
               attrs))"
proof (intro conjI impI)
  assume run: "sqlify b whr ignoreSet inputData ({}, [], []) attrs
                 = Inr (ignoreUpdate, sqlColumns, sqlValues)"
  then have ign: "ignoreUpdate = attr_name ` {a \<in> set attrs. updateExcluded b ignoreSet a}"
    and cols: "sqlColumns = insertColumns b whr inputData attrs"
    and vals: "sqlValues = insertValues b whr inputData attrs"
    by (auto simp: sqlify_start split: option.splits)
  show "attr_name attr \<in> ignoreUpdate \<longleftrightarrow>
         omit b attr ''update'' \<or> omit b attr ''updateOnConflict''
         \<or> upsertIgnoreColumnEnum b attr \<in> ignoreSet"
    unfolding ign excluded_names_distinct [OF assms] by (simp add: updateExcluded_def)
  show "sqlColumns = insertColumns b whr inputData attrs" by (rule cols)
  show "sqlValues = insertValues b whr inputData attrs" by (rule vals)
  show "conflictUpdateArray ignoreUpdate sqlColumns =
          map (\<lambda>a. assignment (attr_name a))
            (filter (\<lambda>a. inInsertList b whr inputData a \<and>
                          \<not> (omit b a ''update'' \<or> omit b a ''updateOnConflict''
                             \<or> upsertIgnoreColumnEnum b a \<in> ignoreSet)) attrs)"
    unfolding ign cols conflictUpdateArray_insertColumns [OF assms(1)]
    by (simp add: updateExcluded_def)
next
  assume run: "sqlify_src b whr ignore inputData (Map.empty, [], []) attrs
        = Inr (ignoreUpdate', sqlColumns', sqlValues')"
  then have ign: "ignoreUpdate' = ignoreUpdate_src b ignore Map.empty attrs"
    and cols: "sqlColumns' = insertColumns b whr inputData attrs"
    and vals: "sqlValues' = insertValues b whr inputData attrs"
    by (auto simp: sqlify_src_start split: option.splits)
  show "ignoreUpdate' (attr_name attr) =
         Some (case ignore of
                 None \<Rightarrow> Some (omit b attr ''updateOnConflict'')
               | Some ig \<Rightarrow>
                   (case map_of ig (camelCase b (attr_name attr)) of
                      None \<Rightarrow> Some (omit b attr ''updateOnConflict'')
                    | Some flag \<Rightarrow> flag))"
    unfolding ign ignoreUpdate_src_distinct [OF assms] by (simp add: ignoreFlag_src_def)
  show "sqlColumns' = insertColumns b whr inputData attrs" by (rule cols)
  show "sqlValues' = insertValues b whr inputData attrs" by (rule vals)
  show "conflictUpdateArray_src ignoreUpdate' sqlColumns' =
          map (\<lambda>a. assignment (attr_name a))
            (filter (\<lambda>a. inInsertList b whr inputData a \<and> ignoreFlag_src b ignore a \<noteq> Some True)
               attrs)"
    unfolding ign cols by (rule conflictUpdateArray_src_insertColumns [OF assms(1)])
qed

text \<open>
  C2. A column is excluded from the conflict update exactly when the schema omits its update,
  or omits its update on conflict, or the caller's ignore set has it, and the flag never removes
  a column from the insert list. part\_000 does this (\<open>update_exclusion_flags\<close>);
  postgraphile-upsert.ts does not. On the roles table, where the schema omits \<open>rank\<close> from
  the update on conflict, with \<open>title\<close>, \<open>name\<close> and \<open>rank\<close> supplied and \<open>name\<close>
  ignored: part\_000 assigns \<open>title\<close> only; postgraphile-upsert.ts, given
  \<open>ignore: {name: true, rank: false}\<close>, assigns \<open>rank\<close> as well, the caller's entry having
  replaced the schema's flag. With \<open>name\<close> marked \<open>@omit update\<close> and nothing ignored,
  part\_000 assigns \<open>title\<close> only; postgraphile-upsert.ts, which never asks
  \<open>omit(attr, "update")\<close>, assigns \<open>name\<close> too. All three columns are inserted every time.
\<close>

theorem conflict_update_ignores_schema_flags:
  "omit example_build \<lparr>attr_classId = ''16397'', attr_num = 5, attr_name = ''rank'',
          attr_type = ''int4'', attr_typeModifier = None\<rparr> ''updateOnConflict''
   \<and> resolve example_build example_constraint example_attribute roles None
       [(''title'', JStr ''director''), (''name'', JStr ''frank''), (''rank'', JNum 2)] (Some [''NAME''])
     = Inr [RAW '' insert into '', IDENTIFIER [''public'', ''roles''], RAW '' '',
          RAW ''('', IDENTIFIER [''title''], RAW '', '', IDENTIFIER [''name''],
          RAW '', '', IDENTIFIER [''rank''], RAW '') values ('',
          VALUE (JStr ''director''), RAW '', '', VALUE (JStr ''frank''), RAW '', '',
          VALUE (JNum 2), RAW '') on conflict on constraint '',
          IDENTIFIER [''roles_pkey''], RAW '' do update set '',
          IDENTIFIER [''title''], RAW '' = excluded.'', IDENTIFIER [''title''],
          RAW '' returning *'']
   \<and> resolve_src example_build example_constraint example_attribute roles None
       [(''title'', JStr ''director''), (''name'', JStr ''frank''), (''rank'', JNum 2)]
       (Some [(''name'', Some True), (''rank'', Some False)])
     = Inr [RAW '' insert into '', IDENTIFIER [''public'', ''roles''], RAW '' '',
          RAW ''('', IDENTIFIER [''title''], RAW '', '', IDENTIFIER [''name''],
          RAW '', '', IDENTIFIER [''rank''], RAW '') values ('',
          VALUE (JStr ''director''), RAW '', '', VALUE (JStr ''frank''), RAW '', '',
          VALUE (JNum 2), RAW '') on conflict on constraint '',
          IDENTIFIER [''roles_pkey''], RAW '' do update set '',
          IDENTIFIER [''title''], RAW '' = excluded.'', IDENTIFIER [''title''],
          RAW '', '', IDENTIFIER [''rank''], RAW '' = excluded.'',
          IDENTIFIER [''rank''], RAW '' returning *'']
   \<and> omit example_build_omit_update \<lparr>attr_classId = ''16397'', attr_num = 4, attr_name = ''name'',
          attr_type = ''varchar'', attr_typeModifier = None\<rparr> ''update''
   \<and> resolve example_build_omit_update example_constraint example_attribute roles None
       [(''title'', JStr ''director''), (''name'', JStr ''frank''), (''rank'', JNum 2)] None
     = Inr [RAW '' insert into '', IDENTIFIER [''public'', ''roles''], RAW '' '',
          RAW ''('', IDENTIFIER [''title''], RAW '', '', IDENTIFIER [''name''],
          RAW '', '', IDENTIFIER [''rank''], RAW '') values ('',
          VALUE (JStr ''director''), RAW '', '', VALUE (JStr ''frank''), RAW '', '',
          VALUE (JNum 2), RAW '') on conflict on constraint '',
          IDENTIFIER [''roles_pkey''], RAW '' do update set '',
          IDENTIFIER [''title''], RAW '' = excluded.'', IDENTIFIER [''title''],
          RAW '' returning *'']
   \<and> resolve_src example_build_omit_update example_constraint example_attribute roles None
       [(''title'', JStr ''director''), (''name'', JStr ''frank''), (''rank'', JNum 2)] None
     = Inr [RAW '' insert into '', IDENTIFIER [''public'', ''roles''], RAW '' '',
          RAW ''('', IDENTIFIER [''title''], RAW '', '', IDENTIFIER [''name''],
          RAW '', '', IDENTIFIER [''rank''], RAW '') values ('',
          VALUE (JStr ''director''), RAW '', '', VALUE (JStr ''frank''), RAW '', '',
          VALUE (JNum 2), RAW '') on conflict on constraint '',
          IDENTIFIER [''roles_pkey''], RAW '' do update set '',
          IDENTIFIER [''title''], RAW '' = excluded.'', IDENTIFIER [''title''],
          RAW '', '', IDENTIFIER [''name''], RAW '' = excluded.'',
          IDENTIFIER [''name''], RAW '' returning *'']"
proof (intro conjI)
  show "omit example_build \<lparr>attr_classId = ''16397'', attr_num = 5, attr_name = ''rank'',
          attr_type = ''int4'', attr_typeModifier = None\<rparr> ''updateOnConflict''"
    by (simp add: example_defs)
  show "resolve example_build example_constraint example_attribute roles None
       [(''title'', JStr ''director''), (''name'', JStr ''frank''), (''rank'', JNum 2)] (Some [''NAME''])
     = Inr [RAW '' insert into '', IDENTIFIER [''public'', ''roles''], RAW '' '',
          RAW ''('', IDENTIFIER [''title''], RAW '', '', IDENTIFIER [''name''],
          RAW '', '', IDENTIFIER [''rank''], RAW '') values ('',
          VALUE (JStr ''director''), RAW '', '', VALUE (JStr ''frank''), RAW '', '',
          VALUE (JNum 2), RAW '') on conflict on constraint '',
          IDENTIFIER [''roles_pkey''], RAW '' do update set '',
          IDENTIFIER [''title''], RAW '' = excluded.'', IDENTIFIER [''title''],
          RAW '' returning *'']"
    by (simp add: example_defs resolve_defs)
  show "resolve_src example_build example_constraint example_attribute roles None
       [(''title'', JStr ''director''), (''name'', JStr ''frank''), (''rank'', JNum 2)]
       (Some [(''name'', Some True), (''rank'', Some False)])
     = Inr [RAW '' insert into '', IDENTIFIER [''public'', ''roles''], RAW '' '',
          RAW ''('', IDENTIFIER [''title''], RAW '', '', IDENTIFIER [''name''],
          RAW '', '', IDENTIFIER [''rank''], RAW '') values ('',
          VALUE (JStr ''director''), RAW '', '', VALUE (JStr ''frank''), RAW '', '',
          VALUE (JNum 2), RAW '') on conflict on constraint '',
          IDENTIFIER [''roles_pkey''], RAW '' do update set '',
          IDENTIFIER [''title''], RAW '' = excluded.'', IDENTIFIER [''title''],
          RAW '', '', IDENTIFIER [''rank''], RAW '' = excluded.'',
          IDENTIFIER [''rank''], RAW '' returning *'']"
    by (simp add: example_defs resolve_src_defs)
  show "omit example_build_omit_update \<lparr>attr_classId = ''16397'', attr_num = 4, attr_name = ''name'',
          attr_type = ''varchar'', attr_typeModifier = None\<rparr> ''update''"
    by (simp add: example_defs)
  show "resolve example_build_omit_update example_constraint example_attribute roles None
       [(''title'', JStr ''director''), (''name'', JStr ''frank''), (''rank'', JNum 2)] None
     = Inr [RAW '' insert into '', IDENTIFIER [''public'', ''roles''], RAW '' '',
          RAW ''('', IDENTIFIER [''title''], RAW '', '', IDENTIFIER [''name''],
          RAW '', '', IDENTIFIER [''rank''], RAW '') values ('',
          VALUE (JStr ''director''), RAW '', '', VALUE (JStr ''frank''), RAW '', '',
          VALUE (JNum 2), RAW '') on conflict on constraint '',
          IDENTIFIER [''roles_pkey''], RAW '' do update set '',
          IDENTIFIER [''title''], RAW '' = excluded.'', IDENTIFIER [''title''],
          RAW '' returning *'']"
    by (simp add: example_defs resolve_defs)
  show "resolve_src example_build_omit_update example_constraint example_attribute roles None
       [(''title'', JStr ''director''), (''name'', JStr ''frank''), (''rank'', JNum 2)] None
     = Inr [RAW '' insert into '', IDENTIFIER [''public'', ''roles''], RAW '' '',
          RAW ''('', IDENTIFIER [''title''], RAW '', '', IDENTIFIER [''name''],
          RAW '', '', IDENTIFIER [''rank''], RAW '') values ('',
          VALUE (JStr ''director''), RAW '', '', VALUE (JStr ''frank''), RAW '', '',
          VALUE (JNum 2), RAW '') on conflict on constraint '',
          IDENTIFIER [''roles_pkey''], RAW '' do update set '',
          IDENTIFIER [''title''], RAW '' = excluded.'', IDENTIFIER [''title''],
          RAW '', '', IDENTIFIER [''name''], RAW '' = excluded.'',
          IDENTIFIER [''name''], RAW '' returning *'']"
    by (simp add: example_defs resolve_src_defs)
qed

text \<open>On both requests the two resolvers hand on different statements.\<close>

theorem conflict_update_ignores_schema_flags_witness:
  "resolve_src example_build example_constraint example_attribute roles None
       [(''title'', JStr ''director''), (''name'', JStr ''frank''), (''rank'', JNum 2)]
       (Some [(''name'', Some True), (''rank'', Some False)])
     \<noteq> resolve example_build example_constraint example_attribute roles None
         [(''title'', JStr ''director''), (''name'', JStr ''frank''), (''rank'', JNum 2)] (Some [''NAME''])
   \<and> resolve_src example_build_omit_update example_constraint example_attribute roles None
       [(''title'', JStr ''director''), (''name'', JStr ''frank''), (''rank'', JNum 2)] None
     \<noteq> resolve example_build_omit_update example_constraint example_attribute roles None
         [(''title'', JStr ''director''), (''name'', JStr ''frank''), (''rank'', JNum 2)] None"
  using conflict_update_ignores_schema_flags by simp

section \<open>Reconciling the match conditions with the input\<close>

lemma sqlify_mismatch:
  "find (valueMismatch b whr inputData) attrs = Some attr \<Longrightarrow>
   sqlify b whr ignoreSet inputData st attrs = Inl (Error (valueMismatchMessage (column b attr)))"
  by (cases st) (simp add: sqlify_eq)

lemma sqlify_src_mismatch:
  "find (valueMismatch b whr inputData) attrs = Some attr \<Longrightarrow>
   sqlify_src b whr ignore inputData st attrs = Inl (Error (valueMismatchMessage (column b attr)))"
  by (cases st) (simp add: sqlify_src_eq)

lemma sqlify_no_mismatch:
  "find (valueMismatch b whr inputData) attrs = None \<Longrightarrow>
   \<exists>r. sqlify b whr ignoreSet inputData st attrs = Inr r"
  by (cases st) (simp add: sqlify_eq)

lemma sqlify_src_no_mismatch:
  "find (valueMismatch b whr inputData) attrs = None \<Longrightarrow>
   \<exists>r. sqlify_src b whr ignore inputData st attrs = Inr r"
  by (cases st) (simp add: sqlify_src_eq)

lemma resolve_mismatch:
  assumes "find (valueMismatch b whr inputData) (attributes attribute tbl) = Some attr"
  shows "resolve b constraints attribute tbl whr inputData ignore \<noteq> Inr q"
    and "columnsByConstraintName (attributes attribute tbl) (uniqueConstraints constraints tbl) = Inr cbn
         \<Longrightarrow> constraintName b cbn (primaryKeyConstraint (uniqueConstraints constraints tbl)) whr
               (Object_keys inputData) = Inr conName
         \<Longrightarrow> resolve b constraints attribute tbl whr inputData ignore
               = Inl (Error (valueMismatchMessage (column b attr)))"
  using assms
  by (auto simp: resolve_def Let_def sqlify_mismatch split: sum.splits option.splits)

lemma resolve_src_mismatch:
  assumes "find (valueMismatch b whr inputData) (attributes attribute tbl) = Some attr"
  shows "resolve_src b constraints attribute tbl whr inputData ignore \<noteq> Inr q"
    and "constraintName_src b (constraintColumns (attributes attribute tbl) (uniqueConstraints constraints tbl))
            (primaryKeyConstraint (uniqueConstraints constraints tbl))
            (upsertedColumns b tbl (attributes attribute tbl) inputData) whr = Inr conName
         \<Longrightarrow> resolve_src b constraints attribute tbl whr inputData ignore
               = Inl (Error (valueMismatchMessage (column b attr)))"
  using assms
  by (auto simp: resolve_src_def Let_def sqlify_src_mismatch split: sum.splits option.splits)

lemma keyAttributes_error:
  "keyAttributes attrs nums = Inl e \<Longrightarrow> \<exists>num. e = NoAttributeFoundFor num"
  by (induction nums) (auto split: option.splits sum.splits)

lemma columnsByConstraintName_reduce_error:
  "columnsByConstraintName_reduce attrs acc cons = Inl e \<Longrightarrow> \<exists>num. e = NoAttributeFoundFor num"
  by (induction cons arbitrary: acc) (auto split: sum.splits dest: keyAttributes_error)

lemma columnsByConstraintName_not_mismatch:
  "columnsByConstraintName attrs ucs \<noteq> Inl (Error message)"
  by (auto simp: columnsByConstraintName_def dest: columnsByConstraintName_reduce_error)

lemma constraintName_not_mismatch:
  "constraintName b cbn pk whr keys \<noteq> Inl (Error (valueMismatchMessage fieldName))"
  by (simp add: constraintName_def valueMismatchMessage_def split: option.splits prod.splits)

lemma resolve_no_mismatch:
  assumes "find (valueMismatch b whr inputData) (attributes attribute tbl) = None"
  shows "resolve b constraints attribute tbl whr inputData ignore
           \<noteq> Inl (Error (valueMismatchMessage fieldName))"
proof -
  obtain r where "sqlify b whr (ignoreArg ignore) inputData ({}, [], []) (attributes attribute tbl) = Inr r"
    using sqlify_no_mismatch [OF assms] by blast
  then show ?thesis
    using columnsByConstraintName_not_mismatch [of "attributes attribute tbl" "uniqueConstraints constraints tbl" "valueMismatchMessage fieldName"]
      constraintName_not_mismatch [of b _ "primaryKeyConstraint (uniqueConstraints constraints tbl)" whr "Object_keys inputData" fieldName]
    by (auto simp: resolve_def Let_def split: sum.splits option.splits prod.splits)
qed

lemma find_entry_error:
  "find_entry p entries = Inl e \<Longrightarrow> \<exists>entry \<in> set entries. p entry = Inl e"
  by (induction entries) (auto split: sum.splits if_splits)

lemma every_col_error: "every_col p cols = Inl e \<Longrightarrow> e = TypeError"
  by (induction p cols rule: every_col.induct) (auto split: if_splits)

lemma constraintName_src_not_mismatch:
  "constraintName_src b cc pk upserted whr \<noteq> Inl (Error (valueMismatchMessage fieldName))"
proof
  assume a: "constraintName_src b cc pk upserted whr = Inl (Error (valueMismatchMessage fieldName))"
  show False
  proof (cases "matchingConstraint_src b cc pk upserted whr")
    case (Inl e)
    then have "e = TypeError"
      by (auto simp: matchingConstraint_src_def split: option.splits sum.splits
          dest!: find_entry_error dest: every_col_error)
    with Inl a show False by (simp add: constraintName_src_def)
  next
    case (Inr m)
    with a show False
      by (simp add: constraintName_src_def valueMismatchMessage_def split: option.splits prod.splits)
  qed
qed

lemma resolve_src_no_mismatch:
  assumes "find (valueMismatch b whr inputData) (attributes attribute tbl) = None"
  shows "resolve_src b constraints attribute tbl whr inputData ignore
           \<noteq> Inl (Error (valueMismatchMessage fieldName))"
proof -
  obtain r where "sqlify_src b whr ignore inputData (Map.empty, [], []) (attributes attribute tbl) = Inr r"
    using sqlify_src_no_mismatch [OF assms] by blast
  then show ?thesis
    using constraintName_src_not_mismatch [of b
        "constraintColumns (attributes attribute tbl) (uniqueConstraints constraints tbl)"
        "primaryKeyConstraint (uniqueConstraints constraints tbl)"
        "upsertedColumns b tbl (attributes attribute tbl) inputData" whr fieldName]
    by (auto simp: resolve_src_def Let_def split: sum.splits option.splits prod.splits)
qed

text \<open>
  C3. \<open>valueMismatch\<close> holds of an attribute whose key is in \<open>where\<close> and in the input
  with different values; \<open>find\<close> gives the first such attribute in the order of the
  relation's attributes. If there is one, the loop of either resolver stops with
  \<open>Value passed in the input for <field> does not match the where clause value.\<close>, where
  \<open><field>\<close> is the attribute's name as the input spells it (\<open>inflection.column(attr)\<close>);
  the request yields no statement, and once the conflict target is resolved this diagnostic is
  the request's error. If there is none, the loop returns and the request does not fail with
  this diagnostic for any field.
\<close>

theorem value_mismatch_diagnostic:
  "(find (valueMismatch b whr inputData) (attributes attribute tbl) = Some attr \<longrightarrow>
      sqlify b whr ignoreSet inputData st (attributes attribute tbl)
        = Inl (Error (''Value passed in the input for '' @ column b attr
                      @ '' does not match the where clause value.''))
      \<and> sqlify_src b whr ignore_src inputData st' (attributes attribute tbl)
        = Inl (Error (''Value passed in the input for '' @ column b attr
                      @ '' does not match the where clause value.''))
      \<and> (\<forall>q. resolve b constraints attribute tbl whr inputData ignore \<noteq> Inr q)
      \<and> (\<forall>q. resolve_src b constraints attribute tbl whr inputData ignore_src \<noteq> Inr q)
      \<and> (\<forall>cbn conName.
            columnsByConstraintName (attributes attribute tbl) (uniqueConstraints constraints tbl)
              = Inr cbn \<and>
            constraintName b cbn (primaryKeyConstraint (uniqueConstraints constraints tbl)) whr
              (Object_keys inputData) = Inr conName \<longrightarrow>
            resolve b constraints attribute tbl whr inputData ignore
              = Inl (Error (''Value passed in the input for '' @ column b attr
                            @ '' does not match the where clause value.'')))
      \<and> (\<forall>conName.
            constraintName_src b
              (constraintColumns (attributes attribute tbl) (uniqueConstraints constraints tbl))
              (primaryKeyConstraint (uniqueConstraints constraints tbl))
              (upsertedColumns b tbl (attributes attribute tbl) inputData) whr = Inr conName \<longrightarrow>
            resolve_src b constraints attribute tbl whr inputData ignore_src
              = Inl (Error (''Value passed in the input for '' @ column b attr
                            @ '' does not match the where clause value.''))))
   \<and> (find (valueMismatch b whr inputData) (attributes attribute tbl) = None \<longrightarrow>
      (\<exists>r. sqlify b whr ignoreSet inputData st (attributes attribute tbl) = Inr r)
      \<and> (\<exists>r. sqlify_src b whr ignore_src inputData st' (attributes attribute tbl) = Inr r)
      \<and> (\<forall>fieldName.
            resolve b constraints attribute tbl whr inputData ignore
              \<noteq> Inl (Error (''Value passed in the input for '' @ fieldName
                            @ '' does not match the where clause value.'')))
      \<and> (\<forall>fieldName.
            resolve_src b constraints attribute tbl whr inputData ignore_src
              \<noteq> Inl (Error (''Value passed in the input for '' @ fieldName
                            @ '' does not match the where clause value.''))))"
proof (intro conjI impI allI)
  assume m: "find (valueMismatch b whr inputData) (attributes attribute tbl) = Some attr"
  show "sqlify b whr ignoreSet inputData st (attributes attribute tbl)
        = Inl (Error (''Value passed in the input for '' @ column b attr
                      @ '' does not match the where clause value.''))"
    using sqlify_mismatch [OF m] by (simp add: valueMismatchMessage_def)
  show "sqlify_src b whr ignore_src inputData st' (attributes attribute tbl)
        = Inl (Error (''Value passed in the input for '' @ column b attr
                      @ '' does not match the where clause value.''))"
    using sqlify_src_mismatch [OF m] by (simp add: valueMismatchMessage_def)
  show "resolve b constraints attribute tbl whr inputData ignore \<noteq> Inr q" for q
    by (rule resolve_mismatch(1) [OF m])
  show "resolve_src b constraints attribute tbl whr inputData ignore_src \<noteq> Inr q" for q
    by (rule resolve_src_mismatch(1) [OF m])
  show "resolve b constraints attribute tbl whr inputData ignore
              = Inl (Error (''Value passed in the input for '' @ column b attr
                            @ '' does not match the where clause value.''))"
    if "columnsByConstraintName (attributes attribute tbl) (uniqueConstraints constraints tbl)
              = Inr cbn \<and>
            constraintName b cbn (primaryKeyConstraint (uniqueConstraints constraints tbl)) whr
              (Object_keys inputData) = Inr conName" for cbn conName
    using resolve_mismatch(2) [OF m, of constraints cbn conName ignore] that
    by (simp add: valueMismatchMessage_def)
  show "resolve_src b constraints attribute tbl whr inputData ignore_src
              = Inl (Error (''Value passed in the input for '' @ column b attr
                            @ '' does not match the where clause value.''))"
    if "constraintName_src b
              (constraintColumns (attributes attribute tbl) (uniqueConstraints constraints tbl))
              (primaryKeyConstraint (uniqueConstraints constraints tbl))
              (upsertedColumns b tbl (attributes attribute tbl) inputData) whr = Inr conName"
    for conName
    using resolve_src_mismatch(2) [OF m, of constraints conName ignore_src] that
    by (simp add: valueMismatchMessage_def)
next
  assume n: "find (valueMismatch b whr inputData) (attributes attribute tbl) = None"
  show "\<exists>r. sqlify b whr ignoreSet inputData st (attributes attribute tbl) = Inr r"
    by (rule sqlify_no_mismatch [OF n])
  show "\<exists>r. sqlify_src b whr ignore_src inputData st' (attributes attribute tbl) = Inr r"
    by (rule sqlify_src_no_mismatch [OF n])
  show "resolve b constraints attribute tbl whr inputData ignore
              \<noteq> Inl (Error (''Value passed in the input for '' @ fieldName
                            @ '' does not match the where clause value.''))" for fieldName
    using resolve_no_mismatch [OF n, of constraints ignore fieldName]
    by (simp add: valueMismatchMessage_def)
  show "resolve_src b constraints attribute tbl whr inputData ignore_src
              \<noteq> Inl (Error (''Value passed in the input for '' @ fieldName
                            @ '' does not match the where clause value.''))" for fieldName
    using resolve_src_no_mismatch [OF n, of constraints ignore_src fieldName]
    by (simp add: valueMismatchMessage_def)
qed

text \<open>
  The bikes table with \<open>where: {weight: 0.0, serialNumber: "123"}\<close> and an input that says
  \<open>serialNumber: "1234"\<close>: \<open>serial_number\<close> is the first attribute that disagrees and the
  diagnostic names \<open>serialNumber\<close>.
\<close>

theorem value_mismatch_diagnostic_witness:
  "find (valueMismatch example_build
           (Some [(''weight'', JNum 0.0), (''serialNumber'', JStr ''123'')])
           [(''model'', JStr ''kula deluxe v2''), (''weight'', JNum 0.0),
            (''serialNumber'', JStr ''1234'')])
     (attributes example_attribute bikes)
     = Some \<lparr>attr_classId = ''16385'', attr_num = 5, attr_name = ''serial_number'',
              attr_type = ''varchar'', attr_typeModifier = None\<rparr>
   \<and> resolve example_build example_constraint example_attribute bikes
         (Some [(''weight'', JNum 0.0), (''serialNumber'', JStr ''123'')])
         [(''model'', JStr ''kula deluxe v2''), (''weight'', JNum 0.0),
          (''serialNumber'', JStr ''1234'')] None
       = Inl (Error ''Value passed in the input for serialNumber does not match the where clause value.'')"
proof -
  let ?w = "Some [(''weight'', JNum 0.0), (''serialNumber'', JStr ''123'')]"
  let ?i = "[(''model'', JStr ''kula deluxe v2''), (''weight'', JNum 0.0),
            (''serialNumber'', JStr ''1234'')]"
  let ?a = "\<lparr>attr_classId = ''16385'', attr_num = 5, attr_name = ''serial_number'',
              attr_type = ''varchar'', attr_typeModifier = None\<rparr>"
  have h: "find (valueMismatch example_build ?w ?i) (attributes example_attribute bikes) = Some ?a"
    by (simp add: example_defs attributes_def valueMismatch_def whereClause_def)
  have r: "columnsByConstraintName (attributes example_attribute bikes)
             (uniqueConstraints example_constraint bikes)
           = Inr [(''bikes_pkey'', [\<lparr>attr_classId = ''16385'', attr_num = 1, attr_name = ''id'',
                                      attr_type = ''int4'', attr_typeModifier = None\<rparr>]),
                  (''serial_weight_unique'',
                   [?a, \<lparr>attr_classId = ''16385'', attr_num = 2, attr_name = ''weight'',
                          attr_type = ''float4'', attr_typeModifier = None\<rparr>])]
         \<and> constraintName example_build
             [(''bikes_pkey'', [\<lparr>attr_classId = ''16385'', attr_num = 1, attr_name = ''id'',
                                      attr_type = ''int4'', attr_typeModifier = None\<rparr>]),
                  (''serial_weight_unique'',
                   [?a, \<lparr>attr_classId = ''16385'', attr_num = 2, attr_name = ''weight'',
                          attr_type = ''float4'', attr_typeModifier = None\<rparr>])]
             (primaryKeyConstraint (uniqueConstraints example_constraint bikes)) ?w
             (Object_keys ?i) = Inr ''serial_weight_unique''"
    by (simp add: example_defs resolve_defs)
  from value_mismatch_diagnostic [where b = example_build and whr = ?w and inputData = ?i
      and attribute = example_attribute and tbl = bikes and attr = ?a
      and constraints = example_constraint and ignore = None,
      THEN conjunct1, THEN mp, OF h] r
  have "resolve example_build example_constraint example_attribute bikes ?w ?i None
          = Inl (Error (''Value passed in the input for '' @ column example_build ?a
                        @ '' does not match the where clause value.''))"
    by blast
  then have "resolve example_build example_constraint example_attribute bikes ?w ?i None
       = Inl (Error ''Value passed in the input for serialNumber does not match the where clause value.'')"
    by (simp add: example_defs)
  with h show ?thesis by blast
qed

section \<open>Choosing the conflict target\<close>

lemma set_spread_set:
  "set (spread_set acc key v) \<subseteq> insert (key, v) (set acc)"
  by (induction acc key v rule: spread_set.induct) auto

lemma keyAttributes_nonempty:
  "keyAttributes attrs nums = Inr cols \<Longrightarrow> nums \<noteq> [] \<Longrightarrow> cols \<noteq> []"
  by (cases nums) (auto split: option.splits sum.splits)

lemma keyAttributes_consistent:
  "\<forall>num \<in> set nums. find (\<lambda>attr. attr_num attr = num) attrs \<noteq> None \<Longrightarrow>
   \<exists>cols. keyAttributes attrs nums = Inr cols"
  by (simp add: keyAttributes_resolved)

lemma columnsByConstraintName_reduce_nonempty:
  "catalogConsistent attrs cons \<Longrightarrow> \<forall>con \<in> set cons. con_keyAttributeNums con \<noteq> [] \<Longrightarrow>
   \<forall>entry \<in> set acc. snd entry \<noteq> [] \<Longrightarrow>
   \<exists>cbn. columnsByConstraintName_reduce attrs acc cons = Inr cbn
         \<and> (\<forall>entry \<in> set cbn. snd entry \<noteq> [])"
proof (induction cons arbitrary: acc)
  case Nil
  then show ?case by simp
next
  case (Cons con cons)
  obtain cols where k: "keyAttributes attrs (con_keyAttributeNums con) = Inr cols"
    using Cons.prems(1) keyAttributes_consistent [of "con_keyAttributeNums con" attrs]
    by (auto simp: catalogConsistent_def)
  have ne: "cols \<noteq> []"
    using keyAttributes_nonempty [OF k] Cons.prems(2) by simp
  have acc': "\<forall>entry \<in> set (spread_set acc (con_name con) cols). snd entry \<noteq> []"
    using set_spread_set [of acc "con_name con" cols] Cons.prems(3) ne by auto
  have c: "catalogConsistent attrs cons"
    using Cons.prems(1) by (simp add: catalogConsistent_def)
  from Cons.IH [OF c _ acc'] Cons.prems(2) show ?case
    by (simp add: k)
qed

lemma find_none_empty_where:
  "\<forall>entry \<in> set cbn. snd entry \<noteq> [] \<Longrightarrow>
   matchingConstraint b cbn pk (Some []) keys = None"
  by (auto simp: matchingConstraint_def find_None_iff Object_keys_def set_Object_entries)

lemma resolve_empty_where:
  assumes "catalogConsistent (attributes attribute tbl) (uniqueConstraints constraints tbl)"
    and "\<forall>con \<in> set (uniqueConstraints constraints tbl). con_keyAttributeNums con \<noteq> []"
  shows "resolve b constraints attribute tbl (Some []) inputData ignore
           = Inl (noMatchingConstraint (Object_keys inputData))"
proof -
  obtain cbn where cbn: "columnsByConstraintName (attributes attribute tbl)
      (uniqueConstraints constraints tbl) = Inr cbn"
    and ne: "\<forall>entry \<in> set cbn. snd entry \<noteq> []"
    using columnsByConstraintName_reduce_nonempty [OF assms, of "[]"]
    by (auto simp: columnsByConstraintName_def)
  show ?thesis
    by (simp add: resolve_def Let_def cbn constraintName_def find_none_empty_where [OF ne]
        noMatchingConstraint_def)
qed

lemma constraintColumns_foldl_resolved:
  "catalogConsistent attrs cons \<Longrightarrow> \<forall>con \<in> set cons. con_keyAttributeNums con \<noteq> [] \<Longrightarrow>
   \<forall>entry \<in> set acc. snd entry \<noteq> [] \<and> None \<notin> set (snd entry) \<Longrightarrow>
   \<forall>entry \<in> set (foldl (\<lambda>acc con.
              spread_set acc (con_name con)
                (map (\<lambda>num. find (\<lambda>attr. attr_num attr = num) attrs) (con_keyAttributeNums con)))
       acc cons). snd entry \<noteq> [] \<and> None \<notin> set (snd entry)"
proof (induction cons arbitrary: acc)
  case Nil
  then show ?case by simp
next
  case (Cons con cons)
  let ?cols = "map (\<lambda>num. find (\<lambda>attr. attr_num attr = num) attrs) (con_keyAttributeNums con)"
  have good: "?cols \<noteq> [] \<and> None \<notin> set ?cols"
    using Cons.prems(1,2) by (auto simp: catalogConsistent_def)
  have acc': "\<forall>entry \<in> set (spread_set acc (con_name con) ?cols).
                snd entry \<noteq> [] \<and> None \<notin> set (snd entry)"
    using set_spread_set [of acc "con_name con" ?cols] Cons.prems(3) good by fastforce
  have c: "catalogConsistent attrs cons"
    using Cons.prems(1) by (simp add: catalogConsistent_def)
  from Cons.IH [OF c _ acc'] Cons.prems(2) show ?case
    by simp
qed

lemma every_col_never:
  "cols \<noteq> [] \<Longrightarrow> None \<notin> set cols \<Longrightarrow> every_col (\<lambda>col. False) cols = Inr False"
proof (cases cols)
  case Nil
  then show "cols \<noteq> [] \<Longrightarrow> ?thesis" by simp
next
  case (Cons c cs)
  then show "None \<notin> set cols \<Longrightarrow> ?thesis" by (cases c) auto
qed

lemma find_entry_none_empty_where:
  "\<forall>entry \<in> set cc. snd entry \<noteq> [] \<and> None \<notin> set (snd entry) \<Longrightarrow>
   matchingConstraint_src b cc pk upserted (Some []) = Inr None"
proof -
  assume a: "\<forall>entry \<in> set cc. snd entry \<noteq> [] \<and> None \<notin> set (snd entry)"
  have scan: "\<forall>entry \<in> set entries. snd entry \<noteq> [] \<and> None \<notin> set (snd entry) \<Longrightarrow>
      find_entry (\<lambda>(_, columns). every_col (\<lambda>col. False) columns) entries = Inr None"
    for entries :: "(pgAttribute option list) object"
    by (induction entries) (auto simp: every_col_never)
  have "find_entry (\<lambda>(_, columns). every_col (\<lambda>col. False) columns) (Object_entries cc)
          = Inr None"
    using a by (intro scan) (simp add: set_Object_entries)
  then show ?thesis
    by (simp add: matchingConstraint_src_def)
qed

lemma resolve_src_empty_where:
  assumes "catalogConsistent (attributes attribute tbl) (uniqueConstraints constraints tbl)"
    and "\<forall>con \<in> set (uniqueConstraints constraints tbl). con_keyAttributeNums con \<noteq> []"
  shows "resolve_src b constraints attribute tbl (Some []) inputData ignore
           = Inl (noMatchingConstraint
                    (map toString (upsertedColumns b tbl (attributes attribute tbl) inputData)))"
proof -
  have ne: "\<forall>entry \<in> set (constraintColumns (attributes attribute tbl)
               (uniqueConstraints constraints tbl)). snd entry \<noteq> [] \<and> None \<notin> set (snd entry)"
    unfolding constraintColumns_def
    by (rule constraintColumns_foldl_resolved [OF assms]) simp
  show ?thesis
    by (simp add: resolve_src_def Let_def constraintName_src_def
        find_entry_none_empty_where [OF ne] noMatchingConstraint_def)
qed

lemma resolve_no_constraint:
  "columnsByConstraintName (attributes attribute tbl) (uniqueConstraints constraints tbl) = Inr cbn \<Longrightarrow>
   constraintName b cbn (primaryKeyConstraint (uniqueConstraints constraints tbl)) whr
     (Object_keys inputData) = Inl e \<Longrightarrow>
   resolve b constraints attribute tbl whr inputData ignore = Inl e"
  by (simp add: resolve_def Let_def)

lemma resolve_src_no_constraint:
  "constraintName_src b (constraintColumns (attributes attribute tbl) (uniqueConstraints constraints tbl))
     (primaryKeyConstraint (uniqueConstraints constraints tbl))
     (upsertedColumns b tbl (attributes attribute tbl) inputData) whr = Inl e \<Longrightarrow>
   resolve_src b constraints attribute tbl whr inputData ignore = Inl e"
  by (simp add: resolve_src_def Let_def)

text \<open>
  The scan of the \<open>where\<close> branch. The catalog is consistent (every key number of a
  constraint is the number of an attribute of the relation), constraint names are distinct
  within the relation, and no constraint name is an array index (a decimal numeral below
  \<open>2^32 - 1\<close> without a leading zero), so that \<open>Object.entries\<close> lists the constraints in
  the catalog's order. \<open>covers b keys attrs con\<close> says that the field name of every member
  column of \<open>con\<close> is among \<open>keys\<close>. Then both resolvers return the name of the first
  constraint, in the catalog's order, that the keys of \<open>where\<close> cover; if there is none the
  result is the error \<open>Unable to determine upsert unique constraint ...\<close>, whatever the primary
  key and the input are, and that error is the request's result.
\<close>

lemma where_scan_in_catalog_order:
  assumes "catalogConsistent attrs ucs" and "distinct (map con_name ucs)"
    and "\<forall>con \<in> set ucs. arrayIndex (con_name con) = None"
  shows
  "(\<exists>cbn. columnsByConstraintName attrs ucs = Inr cbn \<and>
          constraintName b cbn pk (Some w) keys =
            (case find (covers b (Object_keys w) attrs) ucs of
               Some con \<Rightarrow> Inr (con_name con)
             | None \<Rightarrow>
                 Inl (Error (''Unable to determine upsert unique constraint for given upserted columns: ''
                             @ join keys '', ''))))
   \<and> constraintName_src b (constraintColumns attrs ucs) pk upserted (Some w) =
         (case find (covers b (Object_keys w) attrs) ucs of
            Some con \<Rightarrow> Inr (con_name con)
          | None \<Rightarrow>
              Inl (Error (''Unable to determine upsert unique constraint for given upserted columns: ''
                          @ join (map toString upserted) '', '')))
   \<and> (attrs = attributes attribute tbl \<and> ucs = uniqueConstraints constraints tbl \<and>
       find (covers b (Object_keys w) attrs) ucs = None \<longrightarrow>
       resolve b constraints attribute tbl (Some w) inputData ignore
         = Inl (Error (''Unable to determine upsert unique constraint for given upserted columns: ''
                       @ join (Object_keys inputData) '', ''))
       \<and> resolve_src b constraints attribute tbl (Some w) inputData ignore_src
         = Inl (Error (''Unable to determine upsert unique constraint for given upserted columns: ''
                       @ join (map toString (upsertedColumns b tbl attrs inputData)) '', '')))"
proof (intro conjI impI)
  show "\<exists>cbn. columnsByConstraintName attrs ucs = Inr cbn \<and>
          constraintName b cbn pk (Some w) keys =
            (case find (covers b (Object_keys w) attrs) ucs of
               Some con \<Rightarrow> Inr (con_name con)
             | None \<Rightarrow>
                 Inl (Error (''Unable to determine upsert unique constraint for given upserted columns: ''
                             @ join keys '', '')))"
    by (rule constraintName_where [OF assms, unfolded noMatchingConstraint_def])
  show "constraintName_src b (constraintColumns attrs ucs) pk upserted (Some w) =
         (case find (covers b (Object_keys w) attrs) ucs of
            Some con \<Rightarrow> Inr (con_name con)
          | None \<Rightarrow>
              Inl (Error (''Unable to determine upsert unique constraint for given upserted columns: ''
                          @ join (map toString upserted) '', '')))"
    by (rule constraintName_src_where [OF assms, unfolded noMatchingConstraint_def])
next
  assume a: "attrs = attributes attribute tbl \<and> ucs = uniqueConstraints constraints tbl \<and>
       find (covers b (Object_keys w) attrs) ucs = None"
  then have e1: "attributes attribute tbl = attrs"
    and e2: "uniqueConstraints constraints tbl = ucs"
    and n: "find (covers b (Object_keys w) attrs) ucs = None"
    by blast+
  obtain cbn where cbn: "columnsByConstraintName attrs ucs = Inr cbn"
    and c: "constraintName b cbn (primaryKeyConstraint ucs) (Some w) (Object_keys inputData)
            = Inl (noMatchingConstraint (Object_keys inputData))"
    using constraintName_where [OF assms, of b "primaryKeyConstraint ucs" w "Object_keys inputData"] n
    by auto
  have "resolve b constraints attribute tbl (Some w) inputData ignore
          = Inl (noMatchingConstraint (Object_keys inputData))"
    by (rule resolve_no_constraint [of _ _ _ cbn]) (simp_all add: e1 e2 cbn c)
  then show "resolve b constraints attribute tbl (Some w) inputData ignore
         = Inl (Error (''Unable to determine upsert unique constraint for given upserted columns: ''
                       @ join (Object_keys inputData) '', ''))"
    by (simp add: noMatchingConstraint_def)
  have "constraintName_src b (constraintColumns attrs ucs) (primaryKeyConstraint ucs)
          (upsertedColumns b tbl attrs inputData) (Some w)
        = Inl (noMatchingConstraint (map toString (upsertedColumns b tbl attrs inputData)))"
    using constraintName_src_where [OF assms, of b "primaryKeyConstraint ucs"
        "upsertedColumns b tbl attrs inputData" w] n
    by simp
  then have "resolve_src b constraints attribute tbl (Some w) inputData ignore_src
        = Inl (noMatchingConstraint (map toString (upsertedColumns b tbl attrs inputData)))"
    by (intro resolve_src_no_constraint) (simp add: e1 e2)
  then show "resolve_src b constraints attribute tbl (Some w) inputData ignore_src
         = Inl (Error (''Unable to determine upsert unique constraint for given upserted columns: ''
                       @ join (map toString (upsertedColumns b tbl attrs inputData)) '', ''))"
    by (simp add: noMatchingConstraint_def)
qed

text \<open>
  C5. With a \<open>where\<close> argument the resolver is to return the first constraint, in the
  catalog's order, whose member columns are all keys of \<open>where\<close>. Both resolvers collect the
  constraints in an object keyed by constraint name and scan \<open>Object.entries\<close> of it, which
  lists keys that are array indices first. On the bikes table with a third constraint
  \<open>"1" unique (make)\<close>, \<open>where: {id: 1, make: "kona"}\<close> and \<open>input: {model: "kula"}\<close>:
  the catalog lists \<open>bikes_pkey\<close>, \<open>serial_weight_unique\<close>, \<open>1\<close>; the first constraint in
  that order that \<open>where\<close> covers is \<open>bikes_pkey\<close>; both resolvers build the statement
  with \<open>on conflict on constraint "1"\<close>.
\<close>

theorem where_scan_prefers_numeral_constraint:
  "map con_name (uniqueConstraints example_constraint_numeral bikes)
     = [''bikes_pkey'', ''serial_weight_unique'', ''1'']
   \<and> map_option con_name
       (find (covers example_build (Object_keys [(''id'', JNum 1), (''make'', JStr ''kona'')])
                (attributes example_attribute bikes))
          (uniqueConstraints example_constraint_numeral bikes))
     = Some ''bikes_pkey''
   \<and> resolve example_build example_constraint_numeral example_attribute bikes
       (Some [(''id'', JNum 1), (''make'', JStr ''kona'')]) [(''model'', JStr ''kula'')] None
     = Inr [RAW '' insert into '', IDENTIFIER [''public'', ''bikes''], RAW '' '',
          RAW ''('', IDENTIFIER [''id''], RAW '', '', IDENTIFIER [''make''],
          RAW '', '', IDENTIFIER [''model''], RAW '') values ('', VALUE (JNum 1),
          RAW '', '', VALUE (JStr ''kona''), RAW '', '', VALUE (JStr ''kula''),
          RAW '') on conflict on constraint '', IDENTIFIER [''1''],
          RAW '' do update set '', IDENTIFIER [''id''], RAW '' = excluded.'',
          IDENTIFIER [''id''], RAW '', '', IDENTIFIER [''make''],
          RAW '' = excluded.'', IDENTIFIER [''make''], RAW '', '',
          IDENTIFIER [''model''], RAW '' = excluded.'', IDENTIFIER [''model''],
          RAW '' returning *'']
   \<and> resolve_src example_build example_constraint_numeral example_attribute bikes
       (Some [(''id'', JNum 1), (''make'', JStr ''kona'')]) [(''model'', JStr ''kula'')] None
     = Inr [RAW '' insert into '', IDENTIFIER [''public'', ''bikes''], RAW '' '',
          RAW ''('', IDENTIFIER [''id''], RAW '', '', IDENTIFIER [''make''],
          RAW '', '', IDENTIFIER [''model''], RAW '') values ('', VALUE (JNum 1),
          RAW '', '', VALUE (JStr ''kona''), RAW '', '', VALUE (JStr ''kula''),
          RAW '') on conflict on constraint '', IDENTIFIER [''1''],
          RAW '' do update set '', IDENTIFIER [''id''], RAW '' = excluded.'',
          IDENTIFIER [''id''], RAW '', '', IDENTIFIER [''make''],
          RAW '' = excluded.'', IDENTIFIER [''make''], RAW '', '',
          IDENTIFIER [''model''], RAW '' = excluded.'', IDENTIFIER [''model''],
          RAW '' returning *'']"
proof (intro conjI)
  show "map con_name (uniqueConstraints example_constraint_numeral bikes)
     = [''bikes_pkey'', ''serial_weight_unique'', ''1'']"
    by (simp add: example_defs uniqueConstraints_def allUniqueConstraints_def)
  show "map_option con_name
       (find (covers example_build (Object_keys [(''id'', JNum 1), (''make'', JStr ''kona'')])
                (attributes example_attribute bikes))
          (uniqueConstraints example_constraint_numeral bikes))
     = Some ''bikes_pkey''"
    by (simp add: covers_def memberColumns_def example_defs attributes_def
        uniqueConstraints_def allUniqueConstraints_def Object_keys_def)
  show "resolve example_build example_constraint_numeral example_attribute bikes
       (Some [(''id'', JNum 1), (''make'', JStr ''kona'')]) [(''model'', JStr ''kula'')] None
     = Inr [RAW '' insert into '', IDENTIFIER [''public'', ''bikes''], RAW '' '',
          RAW ''('', IDENTIFIER [''id''], RAW '', '', IDENTIFIER [''make''],
          RAW '', '', IDENTIFIER [''model''], RAW '') values ('', VALUE (JNum 1),
          RAW '', '', VALUE (JStr ''kona''), RAW '', '', VALUE (JStr ''kula''),
          RAW '') on conflict on constraint '', IDENTIFIER [''1''],
          RAW '' do update set '', IDENTIFIER [''id''], RAW '' = excluded.'',
          IDENTIFIER [''id''], RAW '', '', IDENTIFIER [''make''],
          RAW '' = excluded.'', IDENTIFIER [''make''], RAW '', '',
          IDENTIFIER [''model''], RAW '' = excluded.'', IDENTIFIER [''model''],
          RAW '' returning *'']"
    by (simp add: example_defs resolve_defs)
  show "resolve_src example_build example_constraint_numeral example_attribute bikes
       (Some [(''id'', JNum 1), (''make'', JStr ''kona'')]) [(''model'', JStr ''kula'')] None
     = Inr [RAW '' insert into '', IDENTIFIER [''public'', ''bikes''], RAW '' '',
          RAW ''('', IDENTIFIER [''id''], RAW '', '', IDENTIFIER [''make''],
          RAW '', '', IDENTIFIER [''model''], RAW '') values ('', VALUE (JNum 1),
          RAW '', '', VALUE (JStr ''kona''), RAW '', '', VALUE (JStr ''kula''),
          RAW '') on conflict on constraint '', IDENTIFIER [''1''],
          RAW '' do update set '', IDENTIFIER [''id''], RAW '' = excluded.'',
          IDENTIFIER [''id''], RAW '', '', IDENTIFIER [''make''],
          RAW '' = excluded.'', IDENTIFIER [''make''], RAW '', '',
          IDENTIFIER [''model''], RAW '' = excluded.'', IDENTIFIER [''model''],
          RAW '' returning *'']"
    by (simp add: example_defs resolve_src_defs)
qed

text \<open>Neither resolver returns the statement whose conflict target is \<open>bikes_pkey\<close>.\<close>

theorem where_scan_prefers_numeral_constraint_witness:
  "resolve example_build example_constraint_numeral example_attribute bikes
       (Some [(''id'', JNum 1), (''make'', JStr ''kona'')]) [(''model'', JStr ''kula'')] None
     \<noteq> Inr [RAW '' insert into '', IDENTIFIER [''public'', ''bikes''], RAW '' '',
          RAW ''('', IDENTIFIER [''id''], RAW '', '', IDENTIFIER [''make''],
          RAW '', '', IDENTIFIER [''model''], RAW '') values ('', VALUE (JNum 1),
          RAW '', '', VALUE (JStr ''kona''), RAW '', '', VALUE (JStr ''kula''),
          RAW '') on conflict on constraint '', IDENTIFIER [''bikes_pkey''],
          RAW '' do update set '', IDENTIFIER [''id''], RAW '' = excluded.'',
          IDENTIFIER [''id''], RAW '', '', IDENTIFIER [''make''],
          RAW '' = excluded.'', IDENTIFIER [''make''], RAW '', '',
          IDENTIFIER [''model''], RAW '' = excluded.'', IDENTIFIER [''model''],
          RAW '' returning *'']
   \<and> resolve_src example_build example_constraint_numeral example_attribute bikes
       (Some [(''id'', JNum 1), (''make'', JStr ''kona'')]) [(''model'', JStr ''kula'')] None
     \<noteq> Inr [RAW '' insert into '', IDENTIFIER [''public'', ''bikes''], RAW '' '',
          RAW ''('', IDENTIFIER [''id''], RAW '', '', IDENTIFIER [''make''],
          RAW '', '', IDENTIFIER [''model''], RAW '') values ('', VALUE (JNum 1),
          RAW '', '', VALUE (JStr ''kona''), RAW '', '', VALUE (JStr ''kula''),
          RAW '') on conflict on constraint '', IDENTIFIER [''bikes_pkey''],
          RAW '' do update set '', IDENTIFIER [''id''], RAW '' = excluded.'',
          IDENTIFIER [''id''], RAW '', '', IDENTIFIER [''make''],
          RAW '' = excluded.'', IDENTIFIER [''make''], RAW '', '',
          IDENTIFIER [''model''], RAW '' = excluded.'', IDENTIFIER [''model''],
          RAW '' returning *'']"
  using where_scan_prefers_numeral_constraint by simp

text \<open>
  C10. In a consistent catalog where every unique or primary constraint of the relation has a
  member column, a request whose \<open>where\<close> is the empty object fails in both resolvers with
  \<open>Unable to determine upsert unique constraint ...\<close>, whatever the input holds and whether
  or not there is a primary key: the scan of the input columns and the primary-key fallback
  belong to the branch without \<open>where\<close>.
\<close>

theorem empty_where_fails:
  assumes "catalogConsistent (attributes attribute tbl) (uniqueConstraints constraints tbl)"
    and "\<forall>con \<in> set (uniqueConstraints constraints tbl). con_keyAttributeNums con \<noteq> []"
  shows
  "resolve b constraints attribute tbl (Some []) inputData ignore
     = Inl (Error (''Unable to determine upsert unique constraint for given upserted columns: ''
                   @ join (Object_keys inputData) '', ''))
   \<and> resolve_src b constraints attribute tbl (Some []) inputData ignore_src
     = Inl (Error (''Unable to determine upsert unique constraint for given upserted columns: ''
                   @ join (map toString (upsertedColumns b tbl (attributes attribute tbl) inputData))
                       '', ''))"
  using resolve_empty_where [OF assms, of b inputData ignore]
    resolve_src_empty_where [OF assms, of b inputData ignore_src]
  by (simp add: noMatchingConstraint_def)

text \<open>
  The bikes table, an empty \<open>where\<close> and an input that supplies the primary key's \<open>id\<close>:
  without \<open>where\<close> the primary key would be chosen; with the empty \<open>where\<close> the request
  fails.
\<close>

theorem empty_where_fails_witness:
  "catalogConsistent (attributes example_attribute bikes) (uniqueConstraints example_constraint bikes)
   \<and> map con_keyAttributeNums (uniqueConstraints example_constraint bikes) = [[1], [5, 2]]
   \<and> resolve example_build example_constraint example_attribute bikes (Some [])
         [(''id'', JNum 1), (''make'', JStr ''kona'')] None
       = Inl (Error ''Unable to determine upsert unique constraint for given upserted columns: id, make'')
   \<and> resolve_src example_build example_constraint example_attribute bikes (Some [])
         [(''id'', JNum 1), (''make'', JStr ''kona'')] None
       = Inl (Error ''Unable to determine upsert unique constraint for given upserted columns: '')"
proof -
  have h1: "catalogConsistent (attributes example_attribute bikes)
              (uniqueConstraints example_constraint bikes)"
    by (simp add: catalogConsistent_def example_defs attributes_def uniqueConstraints_def
        allUniqueConstraints_def)
  have k: "map con_keyAttributeNums (uniqueConstraints example_constraint bikes) = [[1], [5, 2]]"
    by (simp add: example_defs uniqueConstraints_def allUniqueConstraints_def)
  have h2: "\<forall>con \<in> set (uniqueConstraints example_constraint bikes). con_keyAttributeNums con \<noteq> []"
    by (simp add: example_defs uniqueConstraints_def allUniqueConstraints_def)
  from empty_where_fails [OF h1 h2, where b = example_build
      and inputData = "[(''id'', JNum 1), (''make'', JStr ''kona'')]" and ignore = None
      and ignore_src = None]
  have "resolve example_build example_constraint example_attribute bikes (Some [])
         [(''id'', JNum 1), (''make'', JStr ''kona'')] None
       = Inl (Error ''Unable to determine upsert unique constraint for given upserted columns: id, make'')
   \<and> resolve_src example_build example_constraint example_attribute bikes (Some [])
         [(''id'', JNum 1), (''make'', JStr ''kona'')] None
       = Inl (Error ''Unable to determine upsert unique constraint for given upserted columns: '')"
    by (simp add: Object_keys_def upsertedColumns_def hasOwnProperty_def example_defs attributes_def)
  with h1 k show ?thesis by blast
qed

lemma upsertedColumns_has_no_name:
  "StringValue columnName' \<notin> set (upsertedColumns b tbl attrs inputData)"
  by (auto simp: upsertedColumns_def)

text \<open>
  C4. Without \<open>where\<close>, the resolver with the ignore list returns the first constraint whose
  member columns are all among the input's keys, else the primary key, else the error that
  lists the input's keys (\<open>constraintName_no_where\<close>). The resolver in postgraphile-upsert.ts
  does not: its \<open>upsertedColumns\<close> never holds a column name, so the scan passes over every
  constraint that has a member column. For the bikes table and an input with \<open>make\<close>,
  \<open>model\<close>, \<open>weight\<close> and \<open>serialNumber\<close> the first covered constraint is
  \<open>serial_weight_unique\<close>; part\_000 chooses it, postgraphile-upsert.ts falls back to
  \<open>bikes_pkey\<close>.
\<close>

theorem input_scan_misses_covered_constraint:
  "find (covers example_build
           (Object_keys [(''make'', JStr ''kona''), (''model'', JStr ''kula deluxe''),
                         (''weight'', JNum 0.0), (''serialNumber'', JStr ''123'')])
           (attributes example_attribute bikes))
     (uniqueConstraints example_constraint bikes)
     = Some \<lparr>con_classId = ''16385'', con_type = ''u'', con_name = ''serial_weight_unique'',
              con_keyAttributeNums = [5, 2]\<rparr>
   \<and> upsertedColumns example_build bikes (attributes example_attribute bikes)
         [(''make'', JStr ''kona''), (''model'', JStr ''kula deluxe''),
          (''weight'', JNum 0.0), (''serialNumber'', JStr ''123'')] = []
   \<and> constraintName_src example_build
         (constraintColumns (attributes example_attribute bikes)
            (uniqueConstraints example_constraint bikes))
         (primaryKeyConstraint (uniqueConstraints example_constraint bikes))
         (upsertedColumns example_build bikes (attributes example_attribute bikes)
            [(''make'', JStr ''kona''), (''model'', JStr ''kula deluxe''),
             (''weight'', JNum 0.0), (''serialNumber'', JStr ''123'')])
         None
       = Inr ''bikes_pkey''
   \<and> resolve_src example_build example_constraint example_attribute bikes None
         [(''make'', JStr ''kona''), (''model'', JStr ''kula deluxe''),
          (''weight'', JNum 0.0), (''serialNumber'', JStr ''123'')] None
       = Inr [RAW '' insert into '', IDENTIFIER [''public'', ''bikes''], RAW '' '', RAW ''('',
              IDENTIFIER [''weight''], RAW '', '', IDENTIFIER [''make''], RAW '', '',
              IDENTIFIER [''model''], RAW '', '', IDENTIFIER [''serial_number''],
              RAW '') values ('', VALUE (JNum 0), RAW '', '', VALUE (JStr ''kona''), RAW '', '',
              VALUE (JStr ''kula deluxe''), RAW '', '', VALUE (JStr ''123''),
              RAW '') on conflict on constraint '', IDENTIFIER [''bikes_pkey''],
              RAW '' do update set '',
              IDENTIFIER [''weight''], RAW '' = excluded.'', IDENTIFIER [''weight''], RAW '', '',
              IDENTIFIER [''make''], RAW '' = excluded.'', IDENTIFIER [''make''], RAW '', '',
              IDENTIFIER [''model''], RAW '' = excluded.'', IDENTIFIER [''model''], RAW '', '',
              IDENTIFIER [''serial_number''], RAW '' = excluded.'', IDENTIFIER [''serial_number''],
              RAW '' returning *'']
   \<and> resolve example_build example_constraint example_attribute bikes None
         [(''make'', JStr ''kona''), (''model'', JStr ''kula deluxe''),
          (''weight'', JNum 0.0), (''serialNumber'', JStr ''123'')] None
       = Inr [RAW '' insert into '', IDENTIFIER [''public'', ''bikes''], RAW '' '', RAW ''('',
              IDENTIFIER [''weight''], RAW '', '', IDENTIFIER [''make''], RAW '', '',
              IDENTIFIER [''model''], RAW '', '', IDENTIFIER [''serial_number''],
              RAW '') values ('', VALUE (JNum 0), RAW '', '', VALUE (JStr ''kona''), RAW '', '',
              VALUE (JStr ''kula deluxe''), RAW '', '', VALUE (JStr ''123''),
              RAW '') on conflict on constraint '', IDENTIFIER [''serial_weight_unique''],
              RAW '' do update set '',
              IDENTIFIER [''weight''], RAW '' = excluded.'', IDENTIFIER [''weight''], RAW '', '',
              IDENTIFIER [''make''], RAW '' = excluded.'', IDENTIFIER [''make''], RAW '', '',
              IDENTIFIER [''model''], RAW '' = excluded.'', IDENTIFIER [''model''], RAW '', '',
              IDENTIFIER [''serial_number''], RAW '' = excluded.'', IDENTIFIER [''serial_number''],
              RAW '' returning *'']"
proof (intro conjI)
  show "find (covers example_build
           (Object_keys [(''make'', JStr ''kona''), (''model'', JStr ''kula deluxe''),
                         (''weight'', JNum 0.0), (''serialNumber'', JStr ''123'')])
           (attributes example_attribute bikes))
     (uniqueConstraints example_constraint bikes)
     = Some \<lparr>con_classId = ''16385'', con_type = ''u'', con_name = ''serial_weight_unique'',
              con_keyAttributeNums = [5, 2]\<rparr>"
    by (simp add: covers_def memberColumns_def example_defs attributes_def
        uniqueConstraints_def allUniqueConstraints_def Object_keys_def)
  show "upsertedColumns example_build bikes (attributes example_attribute bikes)
         [(''make'', JStr ''kona''), (''model'', JStr ''kula deluxe''),
          (''weight'', JNum 0.0), (''serialNumber'', JStr ''123'')] = []"
    by (simp add: upsertedColumns_def hasOwnProperty_def example_defs)
  show "constraintName_src example_build
         (constraintColumns (attributes example_attribute bikes)
            (uniqueConstraints example_constraint bikes))
         (primaryKeyConstraint (uniqueConstraints example_constraint bikes))
         (upsertedColumns example_build bikes (attributes example_attribute bikes)
            [(''make'', JStr ''kona''), (''model'', JStr ''kula deluxe''),
             (''weight'', JNum 0.0), (''serialNumber'', JStr ''123'')])
         None
       = Inr ''bikes_pkey''"
    by (simp add: example_defs resolve_src_defs)
  show "resolve_src example_build example_constraint example_attribute bikes None
         [(''make'', JStr ''kona''), (''model'', JStr ''kula deluxe''),
          (''weight'', JNum 0.0), (''serialNumber'', JStr ''123'')] None
       = Inr [RAW '' insert into '', IDENTIFIER [''public'', ''bikes''], RAW '' '', RAW ''('',
              IDENTIFIER [''weight''], RAW '', '', IDENTIFIER [''make''], RAW '', '',
              IDENTIFIER [''model''], RAW '', '', IDENTIFIER [''serial_number''],
              RAW '') values ('', VALUE (JNum 0), RAW '', '', VALUE (JStr ''kona''), RAW '', '',
              VALUE (JStr ''kula deluxe''), RAW '', '', VALUE (JStr ''123''),
              RAW '') on conflict on constraint '', IDENTIFIER [''bikes_pkey''],
              RAW '' do update set '',
              IDENTIFIER [''weight''], RAW '' = excluded.'', IDENTIFIER [''weight''], RAW '', '',
              IDENTIFIER [''make''], RAW '' = excluded.'', IDENTIFIER [''make''], RAW '', '',
              IDENTIFIER [''model''], RAW '' = excluded.'', IDENTIFIER [''model''], RAW '', '',
              IDENTIFIER [''serial_number''], RAW '' = excluded.'', IDENTIFIER [''serial_number''],
              RAW '' returning *'']"
    by (simp add: example_defs resolve_src_defs)
  show "resolve example_build example_constraint example_attribute bikes None
         [(''make'', JStr ''kona''), (''model'', JStr ''kula deluxe''),
          (''weight'', JNum 0.0), (''serialNumber'', JStr ''123'')] None
       = Inr [RAW '' insert into '', IDENTIFIER [''public'', ''bikes''], RAW '' '', RAW ''('',
              IDENTIFIER [''weight''], RAW '', '', IDENTIFIER [''make''], RAW '', '',
              IDENTIFIER [''model''], RAW '', '', IDENTIFIER [''serial_number''],
              RAW '') values ('', VALUE (JNum 0), RAW '', '', VALUE (JStr ''kona''), RAW '', '',
              VALUE (JStr ''kula deluxe''), RAW '', '', VALUE (JStr ''123''),
              RAW '') on conflict on constraint '', IDENTIFIER [''serial_weight_unique''],
              RAW '' do update set '',
              IDENTIFIER [''weight''], RAW '' = excluded.'', IDENTIFIER [''weight''], RAW '', '',
              IDENTIFIER [''make''], RAW '' = excluded.'', IDENTIFIER [''make''], RAW '', '',
              IDENTIFIER [''model''], RAW '' = excluded.'', IDENTIFIER [''model''], RAW '', '',
              IDENTIFIER [''serial_number''], RAW '' = excluded.'', IDENTIFIER [''serial_number''],
              RAW '' returning *'']"
    by (simp add: example_defs resolve_defs)
qed

text \<open>On that request the two resolvers hand on different statements.\<close>

theorem input_scan_misses_covered_constraint_witness:
  "resolve_src example_build example_constraint example_attribute bikes None
         [(''make'', JStr ''kona''), (''model'', JStr ''kula deluxe''),
          (''weight'', JNum 0.0), (''serialNumber'', JStr ''123'')] None
   \<noteq> resolve example_build example_constraint example_attribute bikes None
         [(''make'', JStr ''kona''), (''model'', JStr ''kula deluxe''),
          (''weight'', JNum 0.0), (''serialNumber'', JStr ''123'')] None"
  using input_scan_misses_covered_constraint by simp

section \<open>The insert list\<close>

lemma zip_insert_lists:
  "zip (insertColumns b whr inputData attrs) (insertValues b whr inputData attrs) =
     map (\<lambda>attr. (IDENTIFIER [attr_name attr],
                    gql2pg b (insertValue b whr inputData attr) (attr_type attr)
                      (attr_typeModifier attr)))
       (filter (inInsertList b whr inputData) attrs)"
  by (simp add: insertColumns_def insertValues_def zip_map_map zip_same_conv_map)

lemma where_only_in_insert_lists:
  assumes "attr \<in> set attrs" and "whereClause b whr attr = Some whereValue"
    and "map_of inputData (column b attr) = None"
  shows "(IDENTIFIER [attr_name attr], gql2pg b whereValue (attr_type attr) (attr_typeModifier attr))
           \<in> set (zip (insertColumns b whr inputData attrs) (insertValues b whr inputData attrs))"
proof -
  have "inInsertList b whr inputData attr" and "insertValue b whr inputData attr = whereValue"
    using assms(2,3) by (simp_all add: inInsertList_def insertValue_def)
  with assms(1) show ?thesis
    unfolding zip_insert_lists by force
qed

lemma set_sql_join:
  "x \<in> set items \<Longrightarrow> set x \<subseteq> set (sql_join items sep)"
  by (induction items sep rule: sql_join.induct) auto

lemma resolve_Inr_statement:
  assumes "resolve b constraints attribute tbl whr inputData ignore = Inr q"
  shows "\<exists>namespaceName cbn conName ign cols vals.
           tbl_namespace tbl = Some namespaceName
         \<and> columnsByConstraintName (attributes attribute tbl) (uniqueConstraints constraints tbl)
             = Inr cbn
         \<and> constraintName b cbn (primaryKeyConstraint (uniqueConstraints constraints tbl)) whr
              (Object_keys inputData) = Inr conName
         \<and> sqlify b whr (ignoreArg ignore) inputData ({}, [], []) (attributes attribute tbl)
             = Inr (ign, cols, vals)
         \<and> q = mutationQuery namespaceName (tbl_name tbl) cols vals conName
                 (conflictUpdateArray ign cols)"
  using assms
  by (auto simp: resolve_def Let_def split: sum.splits option.splits)

lemma resolve_src_Inr_statement:
  assumes "resolve_src b constraints attribute tbl whr inputData ignore = Inr q"
  shows "\<exists>namespaceName conName ign cols vals.
           tbl_namespace tbl = Some namespaceName
         \<and> constraintName_src b
              (constraintColumns (attributes attribute tbl) (uniqueConstraints constraints tbl))
              (primaryKeyConstraint (uniqueConstraints constraints tbl))
              (upsertedColumns b tbl (attributes attribute tbl) inputData) whr = Inr conName
         \<and> sqlify_src b whr ignore inputData (Map.empty, [], []) (attributes attribute tbl)
             = Inr (ign, cols, vals)
         \<and> q = mutationQuery namespaceName (tbl_name tbl) cols vals conName
                 (conflictUpdateArray_src ign cols)"
  using assms
  by (auto simp: resolve_src_def Let_def split: sum.splits option.splits)

lemma statement_holds_pair:
  assumes "(c, v) \<in> set (zip cols vals)"
    and "q = mutationQuery namespaceName tableName cols vals conName updates"
  shows "q = [RAW '' insert into '', IDENTIFIER [namespaceName, tableName], RAW '' '', RAW ''('']
             @ sql_join (map (\<lambda>col. [col]) cols) '', ''
             @ [RAW '') values (''] @ sql_join vals '', ''
             @ [RAW '') on conflict on constraint '', IDENTIFIER [conName], RAW '' do update set '']
             @ sql_join updates '', '' @ [RAW '' returning *'']"
    and "c \<in> set q" and "set v \<subseteq> set q"
proof -
  have c: "c \<in> set cols" and v: "v \<in> set vals"
    using assms(1) by (auto dest: set_zip_leftD set_zip_rightD)
  then have ne: "cols \<noteq> []" by auto
  show q: "q = [RAW '' insert into '', IDENTIFIER [namespaceName, tableName], RAW '' '', RAW ''('']
             @ sql_join (map (\<lambda>col. [col]) cols) '', ''
             @ [RAW '') values (''] @ sql_join vals '', ''
             @ [RAW '') on conflict on constraint '', IDENTIFIER [conName], RAW '' do update set '']
             @ sql_join updates '', '' @ [RAW '' returning *'']"
    unfolding assms(2) by (rule mutationQuery_columns [OF ne])
  have "[c] \<in> set (map (\<lambda>col. [col]) cols)" using c by simp
  from set_sql_join [OF this, of "'', ''"] show "c \<in> set q"
    unfolding q by simp
  from set_sql_join [OF v, of "'', ''"] show "set v \<subseteq> set q"
    unfolding q by auto
qed

text \<open>
  C6. An attribute of the relation whose key is in \<open>where\<close> with value \<open>whereValue\<close> and
  not in the input: its round of the loop appends the column \<open>attr.name\<close> and the value
  \<open>gql2pg(whereValue, ...)\<close>; when the loop returns, the pair is in the insert lists at one
  position. The statement the resolver hands on is \<open>insert into <relation> (<columns>) values
  (<values>) on conflict on constraint <constraint> do update set <assignments> returning *\<close>
  with the loop's columns and values, joined by commas, as its column list and value list, the
  pair among them at one position; so the column's identifier and the nodes of its value occur
  in the statement. The same for both resolvers.
\<close>

theorem where_value_promoted:
  assumes "attr \<in> set attrs" and "whr = Some w"
    and "map_of w (camelCase b (attr_name attr)) = Some whereValue"
    and "map_of inputData (column b attr) = None"
  shows
  "(\<exists>ignoreUpdate1. sqlify_attr b whr ignoreSet inputData (ignoreUpdate0, sqlColumns0, sqlValues0) attr
       = Inr (ignoreUpdate1, sqlColumns0 @ [IDENTIFIER [attr_name attr]],
              sqlValues0 @ [gql2pg b whereValue (attr_type attr) (attr_typeModifier attr)]))
   \<and> (\<exists>ignoreUpdate1. sqlify_attr_src b whr ignore_src inputData (ignoreUpdate0', sqlColumns0, sqlValues0) attr
       = Inr (ignoreUpdate1, sqlColumns0 @ [IDENTIFIER [attr_name attr]],
              sqlValues0 @ [gql2pg b whereValue (attr_type attr) (attr_typeModifier attr)]))
   \<and> (sqlify b whr ignoreSet inputData ({}, [], []) attrs = Inr (ignoreUpdate, sqlColumns, sqlValues) \<longrightarrow>
        (IDENTIFIER [attr_name attr], gql2pg b whereValue (attr_type attr) (attr_typeModifier attr))
          \<in> set (zip sqlColumns sqlValues))
   \<and> (sqlify_src b whr ignore_src inputData (Map.empty, [], []) attrs
          = Inr (ignoreUpdate', sqlColumns', sqlValues') \<longrightarrow>
        (IDENTIFIER [attr_name attr], gql2pg b whereValue (attr_type attr) (attr_typeModifier attr))
          \<in> set (zip sqlColumns' sqlValues'))
   \<and> (attrs = attributes attribute tbl \<and>
        resolve b constraints attribute tbl whr inputData ignore = Inr q \<longrightarrow>
        (\<exists>namespaceName cbn conName ign cols vals.
           tbl_namespace tbl = Some namespaceName
           \<and> columnsByConstraintName attrs (uniqueConstraints constraints tbl) = Inr cbn
           \<and> constraintName b cbn (primaryKeyConstraint (uniqueConstraints constraints tbl)) whr
                 (Object_keys inputData) = Inr conName
           \<and> sqlify b whr (ignoreArg ignore) inputData ({}, [], []) attrs = Inr (ign, cols, vals)
           \<and> (IDENTIFIER [attr_name attr], gql2pg b whereValue (attr_type attr) (attr_typeModifier attr))
               \<in> set (zip cols vals)
           \<and> q = [RAW '' insert into '', IDENTIFIER [namespaceName, tbl_name tbl], RAW '' '', RAW ''('']
                 @ sql_join (map (\<lambda>col. [col]) cols) '', ''
                 @ [RAW '') values (''] @ sql_join vals '', ''
                 @ [RAW '') on conflict on constraint '', IDENTIFIER [conName],
                    RAW '' do update set '']
                 @ sql_join (conflictUpdateArray ign cols) '', '' @ [RAW '' returning *''])
        \<and> IDENTIFIER [attr_name attr] \<in> set q
        \<and> set (gql2pg b whereValue (attr_type attr) (attr_typeModifier attr)) \<subseteq> set q)
   \<and> (attrs = attributes attribute tbl \<and>
        resolve_src b constraints attribute tbl whr inputData ignore_src = Inr q' \<longrightarrow>
        (\<exists>namespaceName conName ign cols vals.
           tbl_namespace tbl = Some namespaceName
           \<and> constraintName_src b (constraintColumns attrs (uniqueConstraints constraints tbl))
                 (primaryKeyConstraint (uniqueConstraints constraints tbl))
                 (upsertedColumns b tbl attrs inputData) whr = Inr conName
           \<and> sqlify_src b whr ignore_src inputData (Map.empty, [], []) attrs = Inr (ign, cols, vals)
           \<and> (IDENTIFIER [attr_name attr], gql2pg b whereValue (attr_type attr) (attr_typeModifier attr))
               \<in> set (zip cols vals)
           \<and> q' = [RAW '' insert into '', IDENTIFIER [namespaceName, tbl_name tbl], RAW '' '', RAW ''('']
                 @ sql_join (map (\<lambda>col. [col]) cols) '', ''
                 @ [RAW '') values (''] @ sql_join vals '', ''
                 @ [RAW '') on conflict on constraint '', IDENTIFIER [conName],
                    RAW '' do update set '']
                 @ sql_join (conflictUpdateArray_src ign cols) '', '' @ [RAW '' returning *''])
        \<and> IDENTIFIER [attr_name attr] \<in> set q'
        \<and> set (gql2pg b whereValue (attr_type attr) (attr_typeModifier attr)) \<subseteq> set q')"
proof -
  let ?pair = "(IDENTIFIER [attr_name attr],
                gql2pg b whereValue (attr_type attr) (attr_typeModifier attr))"
  have wc: "whereClause b whr attr = Some whereValue"
    using assms(2,3) by (simp add: whereClause_def)
  have mem: "?pair \<in> set (zip (insertColumns b whr inputData attrs) (insertValues b whr inputData attrs))"
    by (rule where_only_in_insert_lists [OF assms(1) wc assms(4)])
  have 1: "\<exists>ignoreUpdate1. sqlify_attr b whr ignoreSet inputData (ignoreUpdate0, sqlColumns0, sqlValues0) attr
       = Inr (ignoreUpdate1, sqlColumns0 @ [IDENTIFIER [attr_name attr]],
              sqlValues0 @ [gql2pg b whereValue (attr_type attr) (attr_typeModifier attr)])"
    using wc assms(4) by (simp add: Let_def)
  have 2: "\<exists>ignoreUpdate1. sqlify_attr_src b whr ignore_src inputData (ignoreUpdate0', sqlColumns0, sqlValues0) attr
       = Inr (ignoreUpdate1, sqlColumns0 @ [IDENTIFIER [attr_name attr]],
              sqlValues0 @ [gql2pg b whereValue (attr_type attr) (attr_typeModifier attr)])"
    using wc assms(4) by (simp add: Let_def)
  have loop: "?pair \<in> set (zip cols vals)"
    if "sqlify b whr S inputData ({}, [], []) attrs = Inr (ign, cols, vals)" for S ign cols vals
    using mem that by (auto simp: sqlify_start split: option.splits)
  have loop_src: "?pair \<in> set (zip cols vals)"
    if "sqlify_src b whr ignore_src inputData (Map.empty, [], []) attrs = Inr (ign, cols, vals)"
    for ign cols vals
    using mem that by (auto simp: sqlify_src_start split: option.splits)
  have 3: "sqlify b whr ignoreSet inputData ({}, [], []) attrs = Inr (ignoreUpdate, sqlColumns, sqlValues) \<longrightarrow>
        ?pair \<in> set (zip sqlColumns sqlValues)"
    using loop by blast
  have 4: "sqlify_src b whr ignore_src inputData (Map.empty, [], []) attrs
          = Inr (ignoreUpdate', sqlColumns', sqlValues') \<longrightarrow>
        ?pair \<in> set (zip sqlColumns' sqlValues')"
    using loop_src by blast
  have 5: "attrs = attributes attribute tbl \<and>
        resolve b constraints attribute tbl whr inputData ignore = Inr q \<longrightarrow>
        (\<exists>namespaceName cbn conName ign cols vals.
           tbl_namespace tbl = Some namespaceName
           \<and> columnsByConstraintName attrs (uniqueConstraints constraints tbl) = Inr cbn
           \<and> constraintName b cbn (primaryKeyConstraint (uniqueConstraints constraints tbl)) whr
                 (Object_keys inputData) = Inr conName
           \<and> sqlify b whr (ignoreArg ignore) inputData ({}, [], []) attrs = Inr (ign, cols, vals)
           \<and> ?pair
               \<in> set (zip cols vals)
           \<and> q = [RAW '' insert into '', IDENTIFIER [namespaceName, tbl_name tbl], RAW '' '', RAW ''('']
                 @ sql_join (map (\<lambda>col. [col]) cols) '', ''
                 @ [RAW '') values (''] @ sql_join vals '', ''
                 @ [RAW '') on conflict on constraint '', IDENTIFIER [conName],
                    RAW '' do update set '']
                 @ sql_join (conflictUpdateArray ign cols) '', '' @ [RAW '' returning *''])
        \<and> IDENTIFIER [attr_name attr] \<in> set q
        \<and> set (gql2pg b whereValue (attr_type attr) (attr_typeModifier attr)) \<subseteq> set q"
  proof (intro impI)
    assume a: "attrs = attributes attribute tbl \<and>
        resolve b constraints attribute tbl whr inputData ignore = Inr q"
    then have e: "attributes attribute tbl = attrs" by simp
    from a obtain namespaceName cbn conName ign cols vals where
      ns: "tbl_namespace tbl = Some namespaceName"
      and cbn: "columnsByConstraintName attrs (uniqueConstraints constraints tbl) = Inr cbn"
      and cn: "constraintName b cbn (primaryKeyConstraint (uniqueConstraints constraints tbl)) whr
                 (Object_keys inputData) = Inr conName"
      and lp: "sqlify b whr (ignoreArg ignore) inputData ({}, [], []) attrs = Inr (ign, cols, vals)"
      and q: "q = mutationQuery namespaceName (tbl_name tbl) cols vals conName
                 (conflictUpdateArray ign cols)"
      using resolve_Inr_statement [of b constraints attribute tbl whr inputData ignore q]
      unfolding e by blast
    note p = loop [OF lp]
    note st = statement_holds_pair [OF p q]
    from ns cbn cn lp p st show "(\<exists>namespaceName cbn conName ign cols vals.
           tbl_namespace tbl = Some namespaceName
           \<and> columnsByConstraintName attrs (uniqueConstraints constraints tbl) = Inr cbn
           \<and> constraintName b cbn (primaryKeyConstraint (uniqueConstraints constraints tbl)) whr
                 (Object_keys inputData) = Inr conName
           \<and> sqlify b whr (ignoreArg ignore) inputData ({}, [], []) attrs = Inr (ign, cols, vals)
           \<and> ?pair
               \<in> set (zip cols vals)
           \<and> q = [RAW '' insert into '', IDENTIFIER [namespaceName, tbl_name tbl], RAW '' '', RAW ''('']
                 @ sql_join (map (\<lambda>col. [col]) cols) '', ''
                 @ [RAW '') values (''] @ sql_join vals '', ''
                 @ [RAW '') on conflict on constraint '', IDENTIFIER [conName],
                    RAW '' do update set '']
                 @ sql_join (conflictUpdateArray ign cols) '', '' @ [RAW '' returning *''])
        \<and> IDENTIFIER [attr_name attr] \<in> set q
        \<and> set (gql2pg b whereValue (attr_type attr) (attr_typeModifier attr)) \<subseteq> set q"
      by blast
  qed
  have 6: "attrs = attributes attribute tbl \<and>
        resolve_src b constraints attribute tbl whr inputData ignore_src = Inr q' \<longrightarrow>
        (\<exists>namespaceName conName ign cols vals.
           tbl_namespace tbl = Some namespaceName
           \<and> constraintName_src b (constraintColumns attrs (uniqueConstraints constraints tbl))
                 (primaryKeyConstraint (uniqueConstraints constraints tbl))
                 (upsertedColumns b tbl attrs inputData) whr = Inr conName
           \<and> sqlify_src b whr ignore_src inputData (Map.empty, [], []) attrs = Inr (ign, cols, vals)
           \<and> ?pair
               \<in> set (zip cols vals)
           \<and> q' = [RAW '' insert into '', IDENTIFIER [namespaceName, tbl_name tbl], RAW '' '', RAW ''('']
                 @ sql_join (map (\<lambda>col. [col]) cols) '', ''
                 @ [RAW '') values (''] @ sql_join vals '', ''
                 @ [RAW '') on conflict on constraint '', IDENTIFIER [conName],
                    RAW '' do update set '']
                 @ sql_join (conflictUpdateArray_src ign cols) '', '' @ [RAW '' returning *''])
        \<and> IDENTIFIER [attr_name attr] \<in> set q'
        \<and> set (gql2pg b whereValue (attr_type attr) (attr_typeModifier attr)) \<subseteq> set q'"
  proof (intro impI)
    assume a: "attrs = attributes attribute tbl \<and>
        resolve_src b constraints attribute tbl whr inputData ignore_src = Inr q'"
    then have e: "attributes attribute tbl = attrs" by simp
    from a obtain namespaceName conName ign cols vals where
      ns: "tbl_namespace tbl = Some namespaceName"
      and cn: "constraintName_src b (constraintColumns attrs (uniqueConstraints constraints tbl))
                 (primaryKeyConstraint (uniqueConstraints constraints tbl))
                 (upsertedColumns b tbl attrs inputData) whr = Inr conName"
      and lp: "sqlify_src b whr ignore_src inputData (Map.empty, [], []) attrs = Inr (ign, cols, vals)"
      and q: "q' = mutationQuery namespaceName (tbl_name tbl) cols vals conName
                 (conflictUpdateArray_src ign cols)"
      using resolve_src_Inr_statement [of b constraints attribute tbl whr inputData ignore_src q']
      unfolding e by blast
    note p = loop_src [OF lp]
    note st = statement_holds_pair [OF p q]
    from ns cn lp p st show "(\<exists>namespaceName conName ign cols vals.
           tbl_namespace tbl = Some namespaceName
           \<and> constraintName_src b (constraintColumns attrs (uniqueConstraints constraints tbl))
                 (primaryKeyConstraint (uniqueConstraints constraints tbl))
                 (upsertedColumns b tbl attrs inputData) whr = Inr conName
           \<and> sqlify_src b whr ignore_src inputData (Map.empty, [], []) attrs = Inr (ign, cols, vals)
           \<and> ?pair
               \<in> set (zip cols vals)
           \<and> q' = [RAW '' insert into '', IDENTIFIER [namespaceName, tbl_name tbl], RAW '' '', RAW ''('']
                 @ sql_join (map (\<lambda>col. [col]) cols) '', ''
                 @ [RAW '') values (''] @ sql_join vals '', ''
                 @ [RAW '') on conflict on constraint '', IDENTIFIER [conName],
                    RAW '' do update set '']
                 @ sql_join (conflictUpdateArray_src ign cols) '', '' @ [RAW '' returning *''])
        \<and> IDENTIFIER [attr_name attr] \<in> set q'
        \<and> set (gql2pg b whereValue (attr_type attr) (attr_typeModifier attr)) \<subseteq> set q'"
      by blast
  qed
  from 1 2 3 4 5 6 show ?thesis by blast
qed

text \<open>
  The request of the test "Includes where clause values if ommitted from input":
  \<open>where\<close> has \<open>weight\<close> and \<open>serialNumber\<close>, the input only \<open>model\<close>. Both resolvers
  build the same statement; \<open>weight\<close> is in its column list, with the value of \<open>where\<close>
  in its value list.
\<close>

theorem where_value_promoted_witness:
  "\<lparr>attr_classId = ''16385'', attr_num = 2, attr_name = ''weight'', attr_type = ''float4'',
     attr_typeModifier = None\<rparr> \<in> set (attributes example_attribute bikes)
   \<and> map_of [(''weight'', JNum 0.0), (''serialNumber'', JStr ''123'')]
         (camelCase example_build ''weight'') = Some (JNum 0.0)
   \<and> map_of [(''model'', JStr ''kula deluxe v2'')]
         (column example_build \<lparr>attr_classId = ''16385'', attr_num = 2, attr_name = ''weight'',
            attr_type = ''float4'', attr_typeModifier = None\<rparr>) = None
   \<and> sqlify example_build (Some [(''weight'', JNum 0.0), (''serialNumber'', JStr ''123'')]) {}
         [(''model'', JStr ''kula deluxe v2'')] ({}, [], []) (attributes example_attribute bikes)
       = Inr ({}, [IDENTIFIER [''weight''], IDENTIFIER [''model''], IDENTIFIER [''serial_number'']],
              [[VALUE (JNum 0.0)], [VALUE (JStr ''kula deluxe v2'')], [VALUE (JStr ''123'')]])
   \<and> resolve example_build example_constraint example_attribute bikes
         (Some [(''weight'', JNum 0.0), (''serialNumber'', JStr ''123'')])
         [(''model'', JStr ''kula deluxe v2'')] None
       = Inr [RAW '' insert into '', IDENTIFIER [''public'', ''bikes''], RAW '' '', RAW ''('',
              IDENTIFIER [''weight''], RAW '', '', IDENTIFIER [''model''], RAW '', '',
              IDENTIFIER [''serial_number''],
              RAW '') values ('', VALUE (JNum 0.0), RAW '', '', VALUE (JStr ''kula deluxe v2''),
              RAW '', '', VALUE (JStr ''123''),
              RAW '') on conflict on constraint '', IDENTIFIER [''serial_weight_unique''],
              RAW '' do update set '',
              IDENTIFIER [''weight''], RAW '' = excluded.'', IDENTIFIER [''weight''], RAW '', '',
              IDENTIFIER [''model''], RAW '' = excluded.'', IDENTIFIER [''model''], RAW '', '',
              IDENTIFIER [''serial_number''], RAW '' = excluded.'', IDENTIFIER [''serial_number''],
              RAW '' returning *'']
   \<and> resolve_src example_build example_constraint example_attribute bikes
         (Some [(''weight'', JNum 0.0), (''serialNumber'', JStr ''123'')])
         [(''model'', JStr ''kula deluxe v2'')] None
       = Inr [RAW '' insert into '', IDENTIFIER [''public'', ''bikes''], RAW '' '', RAW ''('',
              IDENTIFIER [''weight''], RAW '', '', IDENTIFIER [''model''], RAW '', '',
              IDENTIFIER [''serial_number''],
              RAW '') values ('', VALUE (JNum 0.0), RAW '', '', VALUE (JStr ''kula deluxe v2''),
              RAW '', '', VALUE (JStr ''123''),
              RAW '') on conflict on constraint '', IDENTIFIER [''serial_weight_unique''],
              RAW '' do update set '',
              IDENTIFIER [''weight''], RAW '' = excluded.'', IDENTIFIER [''weight''], RAW '', '',
              IDENTIFIER [''model''], RAW '' = excluded.'', IDENTIFIER [''model''], RAW '', '',
              IDENTIFIER [''serial_number''], RAW '' = excluded.'', IDENTIFIER [''serial_number''],
              RAW '' returning *'']
   \<and> IDENTIFIER [''weight'']
       \<in> set [RAW '' insert into '', IDENTIFIER [''public'', ''bikes''], RAW '' '', RAW ''('',
              IDENTIFIER [''weight''], RAW '', '', IDENTIFIER [''model''], RAW '', '',
              IDENTIFIER [''serial_number''],
              RAW '') values ('', VALUE (JNum 0.0), RAW '', '', VALUE (JStr ''kula deluxe v2''),
              RAW '', '', VALUE (JStr ''123''),
              RAW '') on conflict on constraint '', IDENTIFIER [''serial_weight_unique''],
              RAW '' do update set '',
              IDENTIFIER [''weight''], RAW '' = excluded.'', IDENTIFIER [''weight''], RAW '', '',
              IDENTIFIER [''model''], RAW '' = excluded.'', IDENTIFIER [''model''], RAW '', '',
              IDENTIFIER [''serial_number''], RAW '' = excluded.'', IDENTIFIER [''serial_number''],
              RAW '' returning *'']
   \<and> VALUE (JNum 0.0)
       \<in> set [RAW '' insert into '', IDENTIFIER [''public'', ''bikes''], RAW '' '', RAW ''('',
              IDENTIFIER [''weight''], RAW '', '', IDENTIFIER [''model''], RAW '', '',
              IDENTIFIER [''serial_number''],
              RAW '') values ('', VALUE (JNum 0.0), RAW '', '', VALUE (JStr ''kula deluxe v2''),
              RAW '', '', VALUE (JStr ''123''),
              RAW '') on conflict on constraint '', IDENTIFIER [''serial_weight_unique''],
              RAW '' do update set '',
              IDENTIFIER [''weight''], RAW '' = excluded.'', IDENTIFIER [''weight''], RAW '', '',
              IDENTIFIER [''model''], RAW '' = excluded.'', IDENTIFIER [''model''], RAW '', '',
              IDENTIFIER [''serial_number''], RAW '' = excluded.'', IDENTIFIER [''serial_number''],
              RAW '' returning *'']"
proof -
  let ?weight = "\<lparr>attr_classId = ''16385'', attr_num = 2, attr_name = ''weight'',
     attr_type = ''float4'', attr_typeModifier = None\<rparr>"
  let ?w = "[(''weight'', JNum 0.0), (''serialNumber'', JStr ''123'')]"
  let ?i = "[(''model'', JStr ''kula deluxe v2'')]"
  let ?q = "[RAW '' insert into '', IDENTIFIER [''public'', ''bikes''], RAW '' '', RAW ''('',
              IDENTIFIER [''weight''], RAW '', '', IDENTIFIER [''model''], RAW '', '',
              IDENTIFIER [''serial_number''],
              RAW '') values ('', VALUE (JNum 0.0), RAW '', '', VALUE (JStr ''kula deluxe v2''),
              RAW '', '', VALUE (JStr ''123''),
              RAW '') on conflict on constraint '', IDENTIFIER [''serial_weight_unique''],
              RAW '' do update set '',
              IDENTIFIER [''weight''], RAW '' = excluded.'', IDENTIFIER [''weight''], RAW '', '',
              IDENTIFIER [''model''], RAW '' = excluded.'', IDENTIFIER [''model''], RAW '', '',
              IDENTIFIER [''serial_number''], RAW '' = excluded.'', IDENTIFIER [''serial_number''],
              RAW '' returning *'']"
  have h1: "?weight \<in> set (attributes example_attribute bikes)"
    by (simp add: example_defs attributes_def)
  have h2: "map_of ?w (camelCase example_build (attr_name ?weight)) = Some (JNum 0.0)"
    by (simp add: example_defs)
  have h3: "map_of ?i (column example_build ?weight) = None"
    by (simp add: example_defs)
  have h4: "sqlify example_build (Some ?w) {} ?i ({}, [], []) (attributes example_attribute bikes)
       = Inr ({}, [IDENTIFIER [''weight''], IDENTIFIER [''model''], IDENTIFIER [''serial_number'']],
              [[VALUE (JNum 0.0)], [VALUE (JStr ''kula deluxe v2'')], [VALUE (JStr ''123'')]])"
    by (simp add: example_defs resolve_defs)
  have h5: "resolve example_build example_constraint example_attribute bikes (Some ?w) ?i None
       = Inr ?q"
    by (simp add: example_defs resolve_defs)
  have h6: "resolve_src example_build example_constraint example_attribute bikes (Some ?w) ?i None
       = Inr ?q"
    by (simp add: example_defs resolve_src_defs)
  note t = where_value_promoted [OF h1 refl h2 h3, where constraints = example_constraint
      and attribute = example_attribute and tbl = bikes and ignore = None and q = ?q,
      THEN conjunct2, THEN conjunct2, THEN conjunct2, THEN conjunct2, THEN conjunct1, THEN mp,
      OF conjI, OF refl h5]
  from t have c: "IDENTIFIER [''weight''] \<in> set ?q" and v: "VALUE (JNum 0.0) \<in> set ?q"
    by (simp_all add: example_defs)
  from h1 h2 h3 h4 h5 h6 c v show ?thesis by simp
qed









section \<open>Comparing a match condition with the input\<close>

text \<open>
  C9. The comparison in the loop is \<open>whereClauseValue !== val\<close> on the values themselves. A
  column whose \<open>where\<close> value is the number written \<open>0.0\<close> and whose input value is the
  number written \<open>0\<close> does not mismatch: its round of the loop appends the column with the
  input's value, in both resolvers.
\<close>

theorem zero_matches_zero:
  assumes "map_of w (camelCase b (attr_name attr)) = Some (JNum 0.0)"
    and "map_of inputData (column b attr) = Some (JNum 0)"
  shows
  "\<not> valueMismatch b (Some w) inputData attr
   \<and> (\<exists>ignoreUpdate1.
         sqlify_attr b (Some w) ignoreSet inputData (ignoreUpdate0, sqlColumns, sqlValues) attr
           = Inr (ignoreUpdate1, sqlColumns @ [IDENTIFIER [attr_name attr]],
                  sqlValues @ [gql2pg b (JNum 0) (attr_type attr) (attr_typeModifier attr)]))
   \<and> (\<exists>ignoreUpdate1.
         sqlify_attr_src b (Some w) ignore_src inputData (ignoreUpdate0', sqlColumns, sqlValues) attr
           = Inr (ignoreUpdate1, sqlColumns @ [IDENTIFIER [attr_name attr]],
                  sqlValues @ [gql2pg b (JNum 0) (attr_type attr) (attr_typeModifier attr)]))"
  using assms by (simp add: valueMismatch_def whereClause_def Let_def)

text \<open>
  The request of the test "ensure valid values are included (i.e. 0.0 for numerics)":
  \<open>where: {weight: 0.0, serialNumber: "123"}\<close> with an input that repeats both, \<open>weight\<close>
  written \<open>0\<close>. No mismatch is raised and the statement targets the unique constraint.
\<close>

theorem zero_matches_zero_witness:
  "map_of [(''weight'', JNum 0.0), (''serialNumber'', JStr ''123'')]
       (camelCase example_build ''weight'') = Some (JNum 0.0)
   \<and> map_of [(''model'', JStr ''kula deluxe v2''), (''weight'', JNum 0),
              (''serialNumber'', JStr ''123'')]
         (column example_build \<lparr>attr_classId = ''16385'', attr_num = 2, attr_name = ''weight'',
            attr_type = ''float4'', attr_typeModifier = None\<rparr>) = Some (JNum 0)
   \<and> \<not> valueMismatch example_build (Some [(''weight'', JNum 0.0), (''serialNumber'', JStr ''123'')])
         [(''model'', JStr ''kula deluxe v2''), (''weight'', JNum 0),
          (''serialNumber'', JStr ''123'')]
         \<lparr>attr_classId = ''16385'', attr_num = 2, attr_name = ''weight'',
            attr_type = ''float4'', attr_typeModifier = None\<rparr>
   \<and> resolve example_build example_constraint example_attribute bikes
         (Some [(''weight'', JNum 0.0), (''serialNumber'', JStr ''123'')])
         [(''model'', JStr ''kula deluxe v2''), (''weight'', JNum 0),
          (''serialNumber'', JStr ''123'')] None
       = Inr [RAW '' insert into '', IDENTIFIER [''public'', ''bikes''], RAW '' '', RAW ''('',
              IDENTIFIER [''weight''], RAW '', '', IDENTIFIER [''model''], RAW '', '',
              IDENTIFIER [''serial_number''],
              RAW '') values ('', VALUE (JNum 0), RAW '', '', VALUE (JStr ''kula deluxe v2''),
              RAW '', '', VALUE (JStr ''123''),
              RAW '') on conflict on constraint '', IDENTIFIER [''serial_weight_unique''],
              RAW '' do update set '',
              IDENTIFIER [''weight''], RAW '' = excluded.'', IDENTIFIER [''weight''], RAW '', '',
              IDENTIFIER [''model''], RAW '' = excluded.'', IDENTIFIER [''model''], RAW '', '',
              IDENTIFIER [''serial_number''], RAW '' = excluded.'', IDENTIFIER [''serial_number''],
              RAW '' returning *'']"
proof -
  let ?weight = "\<lparr>attr_classId = ''16385'', attr_num = 2, attr_name = ''weight'',
            attr_type = ''float4'', attr_typeModifier = None\<rparr>"
  let ?w = "[(''weight'', JNum 0.0), (''serialNumber'', JStr ''123'')]"
  let ?i = "[(''model'', JStr ''kula deluxe v2''), (''weight'', JNum 0),
             (''serialNumber'', JStr ''123'')]"
  have h1: "map_of ?w (camelCase example_build (attr_name ?weight)) = Some (JNum 0.0)"
    by (simp add: example_defs)
  have h2: "map_of ?i (column example_build ?weight) = Some (JNum 0)"
    by (simp add: example_defs)
  have c: "\<not> valueMismatch example_build (Some ?w) ?i ?weight"
    by (rule zero_matches_zero [OF h1 h2, THEN conjunct1])
  have r: "resolve example_build example_constraint example_attribute bikes (Some ?w) ?i None
       = Inr [RAW '' insert into '', IDENTIFIER [''public'', ''bikes''], RAW '' '', RAW ''('',
              IDENTIFIER [''weight''], RAW '', '', IDENTIFIER [''model''], RAW '', '',
              IDENTIFIER [''serial_number''],
              RAW '') values ('', VALUE (JNum 0), RAW '', '', VALUE (JStr ''kula deluxe v2''),
              RAW '', '', VALUE (JStr ''123''),
              RAW '') on conflict on constraint '', IDENTIFIER [''serial_weight_unique''],
              RAW '' do update set '',
              IDENTIFIER [''weight''], RAW '' = excluded.'', IDENTIFIER [''weight''], RAW '', '',
              IDENTIFIER [''model''], RAW '' = excluded.'', IDENTIFIER [''model''], RAW '', '',
              IDENTIFIER [''serial_number''], RAW '' = excluded.'', IDENTIFIER [''serial_number''],
              RAW '' returning *'']"
    by (simp add: example_defs resolve_defs)
  from h1 h2 c r show ?thesis by simp
qed

end
